theory Spec2Isabelle
  imports Complex_Main "HOL-Library.Product_Lexorder"
begin

section \<open>Text: Python strings as sequences of code points\<close>

text \<open>
  A Python \<open>str\<close> is a sequence of Unicode code points, so text is a list of
  naturals. The patterns of the source name three characters outside ASCII: the bullet
  U+2022 (8226), the middle dot U+00B7 (183) and the copyright sign U+00A9 (169).
  \<open>cps\<close> turns an ASCII literal into its code points.
\<close>

type_synonym pystr = "nat list"

definition cps :: "string \<Rightarrow> pystr" where
  "cps s = map of_char s"

text \<open>
  Python classifies the code points from 128 upwards with the tables of the Unicode
  database, which are no part of the repository. They are a parameter of the model:
  a record of the tables, consulted only for code points from 128 upwards. Every
  theorem below holds for every such record; below 128 the classes are written out.
\<close>

record unicode =
  uc_space :: "nat \<Rightarrow> bool"
  uc_alnum :: "nat \<Rightarrow> bool"
  uc_decimal :: "nat \<Rightarrow> bool"
  uc_decimal_value :: "nat \<Rightarrow> nat"
  uc_digit :: "nat \<Rightarrow> bool"
  uc_upper :: "nat \<Rightarrow> bool"
  uc_lower :: "nat \<Rightarrow> bool"
  uc_title :: "nat \<Rightarrow> bool"
  uc_tolower :: "nat \<Rightarrow> nat list"

text \<open>\<open>str.isspace\<close> of one character, which is also the class \<open>\s\<close>.\<close>

definition is_space :: "unicode \<Rightarrow> nat \<Rightarrow> bool" where
  "is_space U c = (if c < 128 then (9 \<le> c \<and> c \<le> 13) \<or> (28 \<le> c \<and> c \<le> 32) else uc_space U c)"

text \<open>The class \<open>\d\<close>.\<close>

definition is_decimal :: "unicode \<Rightarrow> nat \<Rightarrow> bool" where
  "is_decimal U c = (if c < 128 then 48 \<le> c \<and> c \<le> 57 else uc_decimal U c)"

definition is_ascii_upper :: "nat \<Rightarrow> bool" where
  "is_ascii_upper c = (65 \<le> c \<and> c \<le> 90)"

definition is_ascii_lower :: "nat \<Rightarrow> bool" where
  "is_ascii_lower c = (97 \<le> c \<and> c \<le> 122)"

definition is_ascii_digit :: "nat \<Rightarrow> bool" where
  "is_ascii_digit c = (48 \<le> c \<and> c \<le> 57)"

text \<open>The class \<open>\w\<close>: alphanumeric, or the underscore.\<close>

definition is_word :: "unicode \<Rightarrow> nat \<Rightarrow> bool" where
  "is_word U c =
     (if c < 128 then is_ascii_upper c \<or> is_ascii_lower c \<or> is_ascii_digit c \<or> c = 95
      else uc_alnum U c)"

definition is_upper_char :: "unicode \<Rightarrow> nat \<Rightarrow> bool" where
  "is_upper_char U c = (if c < 128 then is_ascii_upper c else uc_upper U c)"

definition is_lower_char :: "unicode \<Rightarrow> nat \<Rightarrow> bool" where
  "is_lower_char U c = (if c < 128 then is_ascii_lower c else uc_lower U c)"

definition is_title_char :: "unicode \<Rightarrow> nat \<Rightarrow> bool" where
  "is_title_char U c = (if c < 128 then False else uc_title U c)"

text \<open>
  \<open>str.isupper\<close>: no character is lower case or title case, and some character is
  upper case.
\<close>

definition isupper :: "unicode \<Rightarrow> pystr \<Rightarrow> bool" where
  "isupper U s =
     (\<not> list_ex (\<lambda>c. is_lower_char U c \<or> is_title_char U c) s \<and> list_ex (is_upper_char U) s)"

text \<open>\<open>str.isdigit\<close>: not empty, and every character is a digit.\<close>

definition isdigit :: "unicode \<Rightarrow> pystr \<Rightarrow> bool" where
  "isdigit U s =
     (s \<noteq> [] \<and> list_all (\<lambda>c. if c < 128 then is_ascii_digit c else uc_digit U c) s)"

text \<open>
  \<open>str.lower\<close>, one code point at a time. (Python lowers a capital sigma by its
  context; both results lie outside \<open>[a-z0-9\s]\<close>, and the one caller deletes every
  character outside that class from the lowered text.)
\<close>

definition lower :: "unicode \<Rightarrow> pystr \<Rightarrow> pystr" where
  "lower U s =
     concat (map (\<lambda>c. if c < 128 then (if is_ascii_upper c then [c + 32] else [c])
                       else uc_tolower U c) s)"

text \<open>\<open>str.strip()\<close> and \<open>str.split()\<close> with no argument.\<close>

definition strip :: "unicode \<Rightarrow> pystr \<Rightarrow> pystr" where
  "strip U s = rev (dropWhile (is_space U) (rev (dropWhile (is_space U) s)))"

fun split_acc :: "(nat \<Rightarrow> bool) \<Rightarrow> pystr \<Rightarrow> pystr \<Rightarrow> pystr list" where
  "split_acc sp cur [] = (if cur = [] then [] else [cur])"
| "split_acc sp cur (c # cs) =
     (if sp c then (if cur = [] then split_acc sp [] cs else cur # split_acc sp [] cs)
      else split_acc sp (cur @ [c]) cs)"

definition split :: "unicode \<Rightarrow> pystr \<Rightarrow> pystr list" where
  "split U s = split_acc (is_space U) [] s"

text \<open>\<open>str.count(' ')\<close>, \<open>str.endswith\<close> and \<open>sub in s\<close>.\<close>

definition count_char :: "nat \<Rightarrow> pystr \<Rightarrow> nat" where
  "count_char c s = length (filter (\<lambda>x. x = c) s)"

definition endswith :: "pystr \<Rightarrow> pystr \<Rightarrow> bool" where
  "endswith s suffix = (length suffix \<le> length s \<and> drop (length s - length suffix) s = suffix)"

text \<open>The decimal numeral of a natural number, as an f-string prints it.\<close>

fun str_of_nat :: "nat \<Rightarrow> pystr" where
  "str_of_nat n = (if n < 10 then [48 + n] else str_of_nat (n div 10) @ [48 + n mod 10])"

declare str_of_nat.simps [simp del]

section \<open>Regular expressions\<close>

text \<open>
  The patterns of the source are written as terms of \<open>rx\<close>, one constructor for each
  construct they use. A matcher state is the character before the position (for
  \<open>\b\<close>) and the text from the position on. \<open>rx_rems r st\<close> lists the states
  after every way \<open>r\<close> can match at \<open>st\<close>, in the order in which Python's
  backtracking matcher tries them (a greedy star iterates before it stops, the left
  alternative comes before the right one): a match exists when the list is not empty,
  and its head is the match Python reports.
\<close>

datatype rx =
    Cls "nat \<Rightarrow> bool"
  | Eps
  | Seq rx rx
  | Alt rx rx
  | Star rx
  | Eos
  | Wordb "nat \<Rightarrow> bool"

type_synonym rstate = "nat option \<times> pystr"

primrec star_iter :: "(rstate \<Rightarrow> rstate list) \<Rightarrow> nat \<Rightarrow> rstate \<Rightarrow> rstate list" where
  "star_iter f 0 st = [st]"
| "star_iter f (Suc n) st =
     concat (map (star_iter f n) (filter (\<lambda>t. length (snd t) < length (snd st)) (f st))) @ [st]"

text \<open>
  \<open>Eos\<close> is \<open>$\<close>: the end of the text, or just before a newline that ends it.
  \<open>Wordb w\<close> is \<open>\b\<close> for the word class \<open>w\<close>.
\<close>

primrec rx_rems :: "rx \<Rightarrow> rstate \<Rightarrow> rstate list" where
  "rx_rems (Cls p) st = (case snd st of [] \<Rightarrow> [] | c # cs \<Rightarrow> if p c then [(Some c, cs)] else [])"
| "rx_rems Eps st = [st]"
| "rx_rems (Seq a b) st = concat (map (rx_rems b) (rx_rems a st))"
| "rx_rems (Alt a b) st = rx_rems a st @ rx_rems b st"
| "rx_rems (Star a) st = star_iter (rx_rems a) (length (snd st)) st"
| "rx_rems Eos st = (if snd st = [] \<or> snd st = [10] then [st] else [])"
| "rx_rems (Wordb w) st =
     (if (case fst st of None \<Rightarrow> False | Some c \<Rightarrow> w c) \<noteq> (case snd st of [] \<Rightarrow> False | c # _ \<Rightarrow> w c)
      then [st] else [])"

definition seqs :: "rx list \<Rightarrow> rx" where
  "seqs rs = foldr Seq rs Eps"

definition alts :: "rx list \<Rightarrow> rx" where
  "alts rs = foldr Alt (butlast rs) (last rs)"

definition plus :: "rx \<Rightarrow> rx" where
  "plus r = Seq r (Star r)"

definition opt :: "rx \<Rightarrow> rx" where
  "opt r = Alt r Eps"

definition chr :: "nat \<Rightarrow> rx" where
  "chr c = Cls (\<lambda>x. x = c)"

text \<open>
  A literal under \<open>re.IGNORECASE\<close>: an ASCII letter matches both its cases, and (as
  the documentation of \<open>re\<close> lists) \<open>i\<close> also matches U+0130 and U+0131, \<open>s\<close> also
  U+017F, \<open>k\<close> also U+212A; any other character matches itself.
\<close>

definition ieq :: "nat \<Rightarrow> nat \<Rightarrow> bool" where
  "ieq l c =
     (c = l \<or> (is_ascii_lower l \<and> c + 32 = l) \<or> (is_ascii_upper l \<and> c = l + 32)
      \<or> ((l = 105 \<or> l = 73) \<and> (c = 304 \<or> c = 305))
      \<or> ((l = 115 \<or> l = 83) \<and> c = 383)
      \<or> ((l = 107 \<or> l = 75) \<and> c = 8490))"

definition lit_i :: "string \<Rightarrow> rx" where
  "lit_i s = seqs (map (\<lambda>l. Cls (ieq l)) (cps s))"

text \<open>\<open>pattern.match(text)\<close> and \<open>pattern.search(text)\<close>, as truth values.\<close>

definition re_match :: "rx \<Rightarrow> pystr \<Rightarrow> bool" where
  "re_match r t = (rx_rems r (None, t) \<noteq> [])"

fun search_from :: "rx \<Rightarrow> nat option \<Rightarrow> pystr \<Rightarrow> bool" where
  "search_from r p [] = (rx_rems r (p, []) \<noteq> [])"
| "search_from r p (c # cs) = (rx_rems r (p, c # cs) \<noteq> [] \<or> search_from r (Some c) cs)"

definition re_search :: "rx \<Rightarrow> pystr \<Rightarrow> bool" where
  "re_search r t = search_from r None t"

text \<open>
  \<open>match.group(1)\<close> of a pattern \<open>^(g)rest\<close>: the text the group took in the first
  way of matching \<open>g\<close> after which \<open>rest\<close> matches.
\<close>

definition re_match_group :: "rx \<Rightarrow> rx \<Rightarrow> pystr \<Rightarrow> pystr option" where
  "re_match_group g rest t =
     (case filter (\<lambda>st. rx_rems rest st \<noteq> []) (rx_rems g (None, t)) of
        [] \<Rightarrow> None
      | st # _ \<Rightarrow> Some (take (length t - length (snd st)) t))"

text \<open>The pattern \<open>\d+(\.\d+)*\<close>, which the source uses in five places.\<close>

definition rx_number :: "unicode \<Rightarrow> rx" where
  "rx_number U = Seq (plus (Cls (is_decimal U))) (Star (Seq (chr 46) (plus (Cls (is_decimal U)))))"

section \<open>Errors\<close>

datatype py_error = IndexError | ValueError | KeyError | ZeroDivisionError | TypeError | OpenError

section \<open>The hierarchy refiner\<close>

text \<open>
  An outline entry is the dict \<open>{"level", "text", "page"}\<close>. The refiner assigns to
  \<open>current_entry["level"]\<close>, so the entries live in a store, and a list of entries is a
  list of references into it: the same dict may stand at several places of a list.
\<close>

record entry =
  e_level :: pystr
  e_text :: pystr
  e_page :: int

type_synonym ref = nat
type_synonym store = "ref \<Rightarrow> entry"

text \<open>
  \<open>int(entry["level"][1])\<close>: the second character, read as a decimal digit.
\<close>

definition level_num :: "unicode \<Rightarrow> pystr \<Rightarrow> py_error + nat" where
  "level_num U s =
     (if length s < 2 then Inl IndexError
      else let c = s ! 1 in
        if c < 128 then (if is_ascii_digit c then Inr (c - 48) else Inl ValueError)
        else if uc_decimal U c then Inr (uc_decimal_value U c) else Inl ValueError)"

text \<open>The first loop: an entry equal to the last kept one in text, level and page is skipped.\<close>

fun drop_duplicates :: "store \<Rightarrow> ref option \<Rightarrow> ref list \<Rightarrow> ref list" where
  "drop_duplicates h last_entry [] = []"
| "drop_duplicates h last_entry (r # rs) =
     (if (case last_entry of
            None \<Rightarrow> False
          | Some l \<Rightarrow> e_text (h r) = e_text (h l) \<and> e_level (h r) = e_level (h l)
                      \<and> e_page (h r) = e_page (h l))
      then drop_duplicates h last_entry rs
      else r # drop_duplicates h (Some r) rs)"

definition common_short_words_to_exclude :: "pystr list" where
  "common_short_words_to_exclude = map cps
     [''s.no'', ''name'', ''date'', ''id'', ''no'', ''description'', ''quantity'', ''total'',
      ''relationship'', ''relation'', ''price'', ''unit'', ''value'', ''type'', ''status'',
      ''comments'', ''notes'', ''remarks'', ''subtotal'', ''tax'', ''grand total'', ''item'',
      ''code'', ''ref'', ''part'', ''model'', ''serial'', ''data'', ''key'', ''number'']"

text \<open>
  \<open>re.sub(r'[^a-z0-9\s]', '', text.lower()).strip()\<close>, and the test that drops an
  entry: one word, in the set, and no numbering prefix \<open>^\d+(\.\d+)*\s*\<close>.
\<close>

definition cleaned_text_lower :: "unicode \<Rightarrow> pystr \<Rightarrow> pystr" where
  "cleaned_text_lower U t =
     strip U (filter (\<lambda>c. is_ascii_lower c \<or> is_ascii_digit c \<or> is_space U c) (lower U t))"

definition is_excluded_word :: "unicode \<Rightarrow> pystr \<Rightarrow> bool" where
  "is_excluded_word U t =
     (length (split U (cleaned_text_lower U t)) = 1
      \<and> cleaned_text_lower U t \<in> set common_short_words_to_exclude
      \<and> \<not> re_match (Seq (rx_number U) (Star (Cls (is_space U)))) t)"

text \<open>
  The second loop, over \<open>refined_outline[1:]\<close>; the state is the store and
  \<open>final_cleaned_outline\<close>.
\<close>

fun clamp_levels :: "unicode \<Rightarrow> ref list \<Rightarrow> store \<times> ref list \<Rightarrow> py_error + (store \<times> ref list)" where
  "clamp_levels U [] (h, final) = Inr (h, final)"
| "clamp_levels U (r # rs) (h, final) =
     (case final of
        [] \<Rightarrow> Inl IndexError
      | _ # _ \<Rightarrow>
          (case level_num U (e_level (h r)) of
             Inl e \<Rightarrow> Inl e
           | Inr curr_level_num \<Rightarrow>
               (case level_num U (e_level (h (last final))) of
                  Inl e \<Rightarrow> Inl e
                | Inr prev_level_num \<Rightarrow>
                    let h' = (if curr_level_num > prev_level_num + 1
                              then h(r := (h r)\<lparr>e_level := cps ''H'' @ str_of_nat (prev_level_num + 1)\<rparr>)
                              else h)
                    in if is_excluded_word U (e_text (h' r))
                       then clamp_levels U rs (h', final)
                       else clamp_levels U rs (h', final @ [r]))))"

text \<open>
  \<open>_refine_hierarchy\<close>: the store after the call and the returned list.
\<close>

definition refine_hierarchy :: "unicode \<Rightarrow> store \<Rightarrow> ref list \<Rightarrow> py_error + (store \<times> ref list)" where
  "refine_hierarchy U h outline_candidates =
     (if outline_candidates = [] then Inr (h, [])
      else case drop_duplicates h None outline_candidates of
             [] \<Rightarrow> Inr (h, [])
           | r0 # rest \<Rightarrow> clamp_levels U rest (h, [r0]))"

text \<open>The entries of a returned list, read from the store.\<close>

definition entries_of :: "store \<times> ref list \<Rightarrow> entry list" where
  "entries_of res = map (fst res) (snd res)"

text \<open>What a caller sees of a call: the error raised, or the entries of the returned list.\<close>

definition refined_entries :: "unicode \<Rightarrow> store \<Rightarrow> ref list \<Rightarrow> py_error + entry list" where
  "refined_entries U h outline_candidates =
     (case refine_hierarchy U h outline_candidates of
        Inl e \<Rightarrow> Inl e
      | Inr res \<Rightarrow> Inr (entries_of res))"

definition mk_entry :: "string \<Rightarrow> string \<Rightarrow> int \<Rightarrow> entry" where
  "mk_entry l t p = \<lparr>e_level = cps l, e_text = cps t, e_page = p\<rparr>"

text \<open>A store that holds the given entries at the references 0, 1, 2, ...\<close>

definition store_of :: "entry list \<Rightarrow> store" where
  "store_of es = (\<lambda>r. if r < length es then es ! r else mk_entry [] [] 0)"

text \<open>
  The refiner on a list of dicts that were built one by one, as the scan for headings
  builds them: each entry has a reference of its own.
\<close>

definition refine_fresh :: "unicode \<Rightarrow> entry list \<Rightarrow> py_error + entry list" where
  "refine_fresh U es = refined_entries U (store_of es) [0..<length es]"

text \<open>
  The depth of a level, H1/H2/H3 read as 1/2/3, and the nesting invariant of a
  sequence of depths.
\<close>

definition depth :: "pystr \<Rightarrow> int" where
  "depth l = (if l = cps ''H1'' then 1 else if l = cps ''H2'' then 2 else if l = cps ''H3'' then 3 else 0)"

definition is_outline_level :: "pystr \<Rightarrow> bool" where
  "is_outline_level l = (l = cps ''H1'' \<or> l = cps ''H2'' \<or> l = cps ''H3'')"

fun nesting_ok :: "int list \<Rightarrow> bool" where
  "nesting_ok (a # b # ds) = (b - a \<le> 1 \<and> nesting_ok (b # ds))"
| "nesting_ok [a] = True"
| "nesting_ok [] = True"

section \<open>The heading candidate classifier\<close>

text \<open>
  A block as the assembler emits it. Sizes and coordinates are real numbers: the
  rounding of the floating-point operations of the source is not modelled.
\<close>

record block =
  b_text :: pystr
  b_size :: real
  b_is_bold :: bool
  b_bbox :: "real list"
  b_origin_x :: real
  b_origin_y :: real

text \<open>The thresholds that \<open>__init__\<close> sets.\<close>

definition min_heading_ratio :: real where "min_heading_ratio = 1.3"
definition min_heading_length :: nat where "min_heading_length = 4"
definition max_heading_length :: nat where "max_heading_length = 100"
definition spaced_text_threshold :: real where "spaced_text_threshold = 0.5"
definition indentation_threshold :: real where "indentation_threshold = 25"

text \<open>\<open>self.non_heading_patterns\<close>, in the order of the source.\<close>

definition non_heading_patterns :: "unicode \<Rightarrow> rx list" where
  \<open>non_heading_patterns U =
    (let s = Cls (is_space U); d = Cls (is_decimal U); w = Cls (is_word U);
         az = Cls (\<lambda>c. is_ascii_upper c \<or> is_ascii_lower c)
     in
     [ \<comment> \<open>\<open>^(figure|table|appendix|note:)\b\<close>, ignoring case\<close>
       Seq (alts [lit_i ''figure'', lit_i ''table'', lit_i ''appendix'', lit_i ''note:''])
           (Wordb (is_word U)),
       \<comment> \<open>\<open>^[\<bullet>\-*\<cdot>]\s\<close>\<close>
       Seq (Cls (\<lambda>c. c = 8226 \<or> c = 45 \<or> c = 42 \<or> c = 183)) s,
       \<comment> \<open>\<open>^\d+[/-]\d+$\<close>\<close>
       seqs [plus d, Cls (\<lambda>c. c = 47 \<or> c = 45), plus d, Eos],
       \<comment> \<open>\<open>^[A-Za-z]\d+$\<close>\<close>
       seqs [az, plus d, Eos],
       \<comment> \<open>\<open>^\s*\d+\s*$\<close>\<close>
       seqs [Star s, plus d, Star s, Eos],
       \<comment> \<open>\<open>^[A-Z][A-Za-z]*:$\<close>\<close>
       seqs [Cls is_ascii_upper, Star az, chr 58, Eos],
       \<comment> \<open>\<open>^\w+/\w+:$\<close>\<close>
       seqs [plus w, chr 47, plus w, chr 58, Eos],
       \<comment> \<open>\<open>^\d+\.\s*\w+:$\<close>\<close>
       seqs [plus d, chr 46, Star s, plus w, chr 58, Eos],
       \<comment> \<open>\<open>^(s\.?no\.?|sr\.?no\.?)$\<close>, ignoring case\<close>
       Seq (Alt (seqs [lit_i ''s'', opt (chr 46), lit_i ''no'', opt (chr 46)])
                (seqs [lit_i ''sr'', opt (chr 46), lit_i ''no'', opt (chr 46)]))
           Eos,
       \<comment> \<open>\<open>^(name|date|...|grand total)$\<close>, ignoring case\<close>
       Seq (alts (map lit_i
              [''name'', ''date'', ''address'', ''phone'', ''email'', ''id'', ''sex'', ''gender'',
               ''age'', ''signature'', ''city'', ''state'', ''zip'', ''country'', ''total'',
               ''amount'', ''item'', ''quantity'', ''description'', ''relation'',
               ''relationship'', ''value'', ''unit'', ''price'', ''type'', ''status'',
               ''comments'', ''notes'', ''remarks'', ''subtotal'', ''tax'', ''grand total'']))
           Eos,
       \<comment> \<open>\<open>^\s*\<copyright>\s*\d{4}\s*\<close>\<close>
       seqs [Star s, chr 169, Star s, d, d, d, d, Star s],
       \<comment> \<open>\<open>^\s*all rights reserved\s*$\<close>, ignoring case\<close>
       seqs [Star s, lit_i ''all rights reserved'', Star s, Eos],
       \<comment> \<open>\<open>^\s*confidential\s*$\<close>, ignoring case\<close>
       seqs [Star s, lit_i ''confidential'', Star s, Eos],
       \<comment> \<open>\<open>^\s*document\s+id:\s*\<close>, ignoring case\<close>
       seqs [Star s, lit_i ''document'', plus s, lit_i ''id:'', Star s],
       \<comment> \<open>\<open>^\s*page\s+\d+\s+of\s+\d+\s*$\<close>, ignoring case\<close>
       seqs [Star s, lit_i ''page'', plus s, plus d, plus s, lit_i ''of'', plus s, plus d,
             Star s, Eos],
       \<comment> \<open>\<open>^\s*disclaimer\s*$\<close>, ignoring case\<close>
       seqs [Star s, lit_i ''disclaimer'', Star s, Eos],
       \<comment> \<open>\<open>^\s*copyright\s*$\<close>, ignoring case\<close>
       seqs [Star s, lit_i ''copyright'', Star s, Eos],
       \<comment> \<open>\<open>^\s*prepared\s+by:\<close>, ignoring case\<close>
       seqs [Star s, lit_i ''prepared'', plus s, lit_i ''by:''],
       \<comment> \<open>\<open>^\s*for\s+internal\s+use\s+only\s*$\<close>, ignoring case\<close>
       seqs [Star s, lit_i ''for'', plus s, lit_i ''internal'', plus s, lit_i ''use'', plus s,
             lit_i ''only'', Star s, Eos],
       \<comment> \<open>\<open>^\s*version\s+\d+(\.\d+)*(\s+\w+)?$\<close>, ignoring case\<close>
       seqs [Star s, lit_i ''version'', plus s, rx_number U, opt (Seq (plus s) (plus w)), Eos],
       \<comment> \<open>\<open>^\s*revision\s+history\s*$\<close>, ignoring case\<close>
       seqs [Star s, lit_i ''revision'', plus s, lit_i ''history'', Star s, Eos]
     ])\<close>

text \<open>\<open>self.spaced_text_pattern\<close>: \<open>\w\s{3,}\w\<close>.\<close>

definition spaced_text_pattern :: "unicode \<Rightarrow> rx" where
  "spaced_text_pattern U =
     (let s = Cls (is_space U); w = Cls (is_word U) in seqs [w, s, s, s, Star s, w])"

definition is_spaced_text :: "unicode \<Rightarrow> pystr \<Rightarrow> bool" where
  "is_spaced_text U t =
     (if re_search (spaced_text_pattern U) t then
        (let space_count = count_char 32 t;
             total_chars = length t;
             non_space_chars = total_chars - space_count
         in if non_space_chars > 0
            then real space_count / real non_space_chars > spaced_text_threshold
            else False)
      else False)"

text \<open>
  The two \<open>re.sub\<close> calls that clean the text for the word count: the first removes
  the run of \<open>[\<bullet>\-\*\s]\<close> at the start and the run at the end, the second every
  character outside \<open>[a-zA-Z0-9\s]\<close>.
\<close>

definition is_bullet_or_space :: "unicode \<Rightarrow> nat \<Rightarrow> bool" where
  "is_bullet_or_space U c = (c = 8226 \<or> c = 45 \<or> c = 42 \<or> is_space U c)"

definition cleaned_text_for_comparison :: "unicode \<Rightarrow> pystr \<Rightarrow> pystr" where
  "cleaned_text_for_comparison U t =
     (let c1 = strip U (rev (dropWhile (is_bullet_or_space U)
                               (rev (dropWhile (is_bullet_or_space U) t))))
      in strip U (filter (\<lambda>c. is_ascii_lower c \<or> is_ascii_upper c \<or> is_ascii_digit c
                                \<or> is_space U c) c1))"

text \<open>\<open>_is_heading_candidate\<close>, return by return.\<close>

definition is_heading_candidate :: "unicode \<Rightarrow> block \<Rightarrow> real \<Rightarrow> bool" where
  "is_heading_candidate U blk body_size =
    (let t = strip U (b_text blk);
         cleaned = cleaned_text_for_comparison U t;
         word_count = length (split U cleaned)
     in
     if t = [] then False
     else if cleaned = [] then False
     else if word_count = 1 \<and> \<not> re_match (Seq (rx_number U) Eos) cleaned
             \<and> length cleaned < min_heading_length then False
     else if word_count < 1 then False
     else if length t > max_heading_length then False
     else if list_ex (\<lambda>p. re_match p t) (non_heading_patterns U) then False
     else if endswith t (cps '':'') then False
     else if 124 \<in> set t then False
     else if word_count \<le> 2 \<and> isupper U t
             \<and> \<not> re_match (Seq (rx_number U) (Star (Cls (is_space U)))) t then False
     else if is_spaced_text U t then False
     else if body_size = 0 then False
     else
       (let size_ratio = b_size blk / body_size;
            is_bold_enough = (b_is_bold blk \<and> b_size blk > body_size * 1.05)
        in
        if \<not> (size_ratio \<ge> min_heading_ratio \<or> is_bold_enough) then False
        else
          (let looks_like_sentence =
                 (is_upper_char U (hd t) \<and> word_count > 3
                  \<and> re_search (Seq (Cls (\<lambda>c. c = 46 \<or> c = 63 \<or> c = 33)) Eos) t);
               is_strong_heading_pattern =
                 (isupper U t
                  \<or> re_match (Seq (Alt (rx_number U) (Cls is_ascii_upper))
                                   (Star (Cls (is_space U)))) t)
           in
           if looks_like_sentence \<and> \<not> is_strong_heading_pattern
              \<and> \<not> is_bold_enough \<and> size_ratio < min_heading_ratio * 1.2 then False
           else True)))"

section \<open>The hierarchy assigner\<close>

record heading_style =
  hs_size :: real
  hs_is_bold :: bool
  hs_score :: real
  hs_char_count :: int

text \<open>\<open>prev_heading_context\<close>: the dict kept from the last accepted heading.\<close>

record prev_heading =
  ph_level :: pystr
  ph_size :: real
  ph_origin_x :: real
  ph_origin_y :: real
  ph_bbox :: "real list"

text \<open>
  The level read from the numbering prefix: \<open>group(1)\<close> of
  \<open>^(\d+(\.\d+)*|[A-Z])\s*\<close>, and its count of dots.
\<close>

definition prefix_level :: "unicode \<Rightarrow> pystr \<Rightarrow> nat" where
  "prefix_level U current_text =
     (case re_match_group (Alt (rx_number U) (Cls is_ascii_upper)) (Star (Cls (is_space U)))
             current_text of
        None \<Rightarrow> 3
      | Some prefix \<Rightarrow>
          (let dot_count = count_char 46 prefix in
           if dot_count = 0 \<and> isdigit U prefix then 1
           else if dot_count = 1 then 2
           else 3))"

text \<open>
  The loop over the style table: the first style that matches the block in size and
  weight lowers the level to its rank, and ends the loop.
\<close>

fun style_level :: "block \<Rightarrow> heading_style list \<Rightarrow> nat \<Rightarrow> nat \<Rightarrow> nat" where
  "style_level blk [] i current_level_num = current_level_num"
| "style_level blk (style # styles) i current_level_num =
     (if \<bar>b_size blk - hs_size style\<bar> < 0.5 \<and> b_is_bold blk = hs_is_bold style
      then (if i + 1 < current_level_num then i + 1 else current_level_num)
      else style_level blk styles (i + 1) current_level_num)"

definition h1_ratio_level :: "block \<Rightarrow> heading_style list \<Rightarrow> nat \<Rightarrow> nat" where
  "h1_ratio_level blk heading_styles current_level_num =
     (case heading_styles of
        [] \<Rightarrow> current_level_num
      | style0 # _ \<Rightarrow>
          (let h1_style_size = hs_size style0 in
           if h1_style_size > 0 then
             (let size_ratio_to_h1 = b_size blk / h1_style_size in
              if size_ratio_to_h1 > 0.9 \<and> current_level_num > 1 then 1
              else if size_ratio_to_h1 > 0.7 \<and> current_level_num > 2 then 2
              else current_level_num)
           else current_level_num))"

text \<open>The adjustments against the previous heading; \<open>page_width\<close> is \<open>page_dimensions[0]\<close>.\<close>

definition context_level ::
  "unicode \<Rightarrow> real \<Rightarrow> block \<Rightarrow> prev_heading \<Rightarrow> nat \<Rightarrow> py_error + nat" where
  "context_level U page_width blk prev l0 =
     (case level_num U (ph_level prev) of
        Inl e \<Rightarrow> Inl e
      | Inr prev_level_num \<Rightarrow>
          (let l1 = (if l0 > prev_level_num + 1 then prev_level_num + 1 else l0);
               l2 = (if b_origin_x blk > ph_origin_x prev + indentation_threshold
                        \<and> l1 \<le> prev_level_num
                     then prev_level_num + 1 else l1);
               typical_left_margin_x = page_width * 0.1;
               is_strongly_left_aligned = (\<bar>b_origin_x blk - typical_left_margin_x\<bar> < 30);
               l3 = (if ph_size prev > 0 \<and> b_size blk > ph_size prev * 1.5
                        \<and> is_strongly_left_aligned \<and> l2 > 1
                     then 1 else l2)
           in
           if ph_bbox prev \<noteq> [] \<and> length (ph_bbox prev) < 4 then Inl IndexError
           else
             (let l4 = (if ph_bbox prev \<noteq> []
                           \<and> b_origin_y blk - ph_bbox prev ! 3 > b_size blk * 2.5
                           \<and> is_strongly_left_aligned \<and> l3 > 1
                        then 1 else l3);
                  l5 = (if b_size blk < ph_size prev * 0.9 \<and> l4 \<le> prev_level_num
                        then prev_level_num + 1 else l4)
              in Inr l5)))"

definition determine_heading_level ::
  "unicode \<Rightarrow> real \<Rightarrow> block \<Rightarrow> heading_style list \<Rightarrow> prev_heading option \<Rightarrow> py_error + pystr" where
  "determine_heading_level U page_width blk heading_styles prev_heading =
     (let current_text = strip U (b_text blk);
          l_prefix = prefix_level U current_text;
          l_style = h1_ratio_level blk heading_styles (style_level blk heading_styles 0 l_prefix)
      in case (case prev_heading of
                 None \<Rightarrow> Inr l_style
               | Some prev \<Rightarrow> context_level U page_width blk prev l_style) of
           Inl e \<Rightarrow> Inl e
         | Inr current_level_num \<Rightarrow> Inr (cps ''H'' @ str_of_nat (min current_level_num 3)))"

section \<open>The style statistics\<close>

text \<open>
  \<open>self.font_stats\<close>: a dict from the rounded font size to its two counters, in the
  order of insertion, which is the order in which \<open>max\<close> goes through the keys. It is
  a \<open>defaultdict\<close>: a size with no entry reads as two zeros.
\<close>

record font_stat =
  char_count :: int
  bold_count :: int

type_synonym font_stats = "(real \<times> font_stat) list"

definition stats_of :: "font_stats \<Rightarrow> real \<Rightarrow> font_stat" where
  "stats_of fs s =
     (case map_of fs s of None \<Rightarrow> \<lparr>char_count = 0, bold_count = 0\<rparr> | Some st \<Rightarrow> st)"

text \<open>
  \<open>max(items, key=...)\<close> on a sequence that is not empty: a later item replaces the
  best one only when its key is strictly larger.
\<close>

fun max_by :: "('a \<Rightarrow> 'k::linorder) \<Rightarrow> 'a \<Rightarrow> 'a list \<Rightarrow> 'a" where
  "max_by key best [] = best"
| "max_by key best (x # xs) = (if key x > key best then max_by key x xs else max_by key best xs)"

text \<open>The key of both \<open>max\<close> calls: \<open>char_count - bold_count\<close> of a size.\<close>

definition non_bold_count :: "font_stats \<Rightarrow> real \<Rightarrow> int" where
  "non_bold_count fs s = char_count (stats_of fs s) - bold_count (stats_of fs s)"

definition body_candidates :: "font_stats \<Rightarrow> real list" where
  "body_candidates fs = filter (\<lambda>s. 8 \<le> s \<and> s \<le> 14) (map fst fs)"

definition determine_body_text_size :: "font_stats \<Rightarrow> real" where
  "determine_body_text_size fs =
     (if fs = [] then 11.0
      else case body_candidates fs of
             [] \<Rightarrow> (case map fst fs of
                      [] \<Rightarrow> 11.0
                    | s # ss \<Rightarrow> max_by (non_bold_count fs) s ss)
           | s # ss \<Rightarrow> max_by (non_bold_count fs) s ss)"

text \<open>
  The fallback in the words of the specification: the size with the highest total
  character count of a table that is not empty.
\<close>

definition largest_volume_size :: "font_stats \<Rightarrow> real" where
  "largest_volume_size fs =
     max_by (\<lambda>s. char_count (stats_of fs s)) (fst (hd fs)) (map fst (tl fs))"

section \<open>The title extractor\<close>

text \<open>
  \<open>re.sub(r'(.)\1{2,}', r'\1', text)\<close>. At a character other than the newline that
  is followed by two or more copies of itself, the match takes the whole run and one
  copy replaces it; the scan goes on after the run. Anywhere else the character is
  kept and the scan moves one character on. The dot does not match a newline (10).
\<close>

function deduplicate_title :: "pystr \<Rightarrow> pystr" where
  "deduplicate_title [] = []"
| "deduplicate_title (c # cs) =
     (if c \<noteq> 10 \<and> length (takeWhile (\<lambda>x. x = c) cs) \<ge> 2
      then c # deduplicate_title (dropWhile (\<lambda>x. x = c) cs)
      else c # deduplicate_title cs)"
  by pat_completeness auto
termination
  by (relation "measure length") (auto simp: le_imp_less_Suc length_dropWhile_le)

declare deduplicate_title.simps(2) [simp del]

text \<open>
  A text has a run of three when three consecutive characters are equal; the second
  predicate leaves runs of newlines out.
\<close>

fun has_run3 :: "pystr \<Rightarrow> bool" where
  "has_run3 (a # b # c # xs) = ((a = b \<and> b = c) \<or> has_run3 (b # c # xs))"
| "has_run3 [a, b] = False"
| "has_run3 [a] = False"
| "has_run3 [] = False"

fun has_run3_no_newline :: "pystr \<Rightarrow> bool" where
  "has_run3_no_newline (a # b # c # xs) =
     ((a = b \<and> b = c \<and> a \<noteq> 10) \<or> has_run3_no_newline (b # c # xs))"
| "has_run3_no_newline [a, b] = False"
| "has_run3_no_newline [a] = False"
| "has_run3_no_newline [] = False"

section \<open>The layout source\<close>

text \<open>
  What the PDF library hands over: per page its number, its rectangle, the blocks of
  \<open>get_text("dict")\<close> (text blocks hold lines, lines hold spans), the image records of
  \<open>get_image_info()\<close>, the plain text of \<open>get_text()\<close> and the rectangles of the form
  widgets; per document its pages and the list of \<open>get_toc()\<close>. A bounding box is
  \<open>(x0, y0, x1, y1)\<close>.
\<close>

type_synonym bbox = "real \<times> real \<times> real \<times> real"

definition bb_x0 :: "bbox \<Rightarrow> real" where "bb_x0 b = fst b"
definition bb_y0 :: "bbox \<Rightarrow> real" where "bb_y0 b = fst (snd b)"
definition bb_x1 :: "bbox \<Rightarrow> real" where "bb_x1 b = fst (snd (snd b))"
definition bb_y1 :: "bbox \<Rightarrow> real" where "bb_y1 b = snd (snd (snd b))"

record span =
  sp_text :: pystr
  sp_size :: real
  sp_font :: pystr
  sp_bbox :: bbox

record line =
  ln_spans :: "span list"
  ln_bbox :: bbox

datatype layout_block = TextBlock "line list" | OtherBlock

text \<open>An image record: whether it has the key \<open>bbox\<close>, and its \<open>width\<close> and \<open>height\<close> if present.\<close>

record image_info =
  im_has_bbox :: bool
  im_width :: "real option"
  im_height :: "real option"

record page =
  pg_number :: nat
  pg_width :: real
  pg_height :: real
  pg_blocks :: "layout_block list"
  pg_images :: "image_info list"
  pg_plain_text :: pystr
  pg_widgets :: "(real \<times> real) list"

text \<open>An entry of \<open>get_toc()\<close> is a list \<open>[level, title, page, ...]\<close> of integers and strings.\<close>

datatype toc_item = TocInt int | TocStr pystr

record document =
  doc_pages :: "page list"
  doc_toc :: "toc_item list list"

definition text_lines :: "page \<Rightarrow> line list" where
  "text_lines p = concat (map (\<lambda>b. case b of TextBlock ls \<Rightarrow> ls | OtherBlock \<Rightarrow> []) (pg_blocks p))"

text \<open>\<open>sep.join(parts)\<close>, and \<open>max\<close> of a sequence, which raises on an empty one.\<close>

fun join :: "pystr \<Rightarrow> pystr list \<Rightarrow> pystr" where
  "join sep [] = []"
| "join sep [x] = x"
| "join sep (x # y # ys) = x @ sep @ join sep (y # ys)"

definition py_max :: "real list \<Rightarrow> py_error + real" where
  "py_max xs = (case xs of [] \<Rightarrow> Inl ValueError | x # ys \<Rightarrow> Inr (fold max ys x))"

section \<open>The cover page classifier\<close>

record cover_params =
  max_body_text_lines :: int
  min_image_area_ratio :: real
  min_prominent_font_ratio :: real
  min_prominent_elements :: int
  max_prominent_elements :: int
  title_centering_threshold :: real
  title_vertical_pos_threshold :: real

definition default_cover_params :: cover_params where
  "default_cover_params =
     \<lparr>max_body_text_lines = 8, min_image_area_ratio = 0.02, min_prominent_font_ratio = 1.2,
      min_prominent_elements = 1, max_prominent_elements = 15,
      title_centering_threshold = 0.30, title_vertical_pos_threshold = 0.5\<rparr>"

text \<open>
  The check of the table of contents: \<open>Inr True\<close> when the function returns True at
  once, \<open>Inr False\<close> when it goes on to the heuristics. Comparing a string with
  \<open>> 1\<close> raises.
\<close>

definition toc_says_cover :: "page \<Rightarrow> toc_item list list \<Rightarrow> py_error + bool" where
  "toc_says_cover p toc =
     (case toc of
        [] \<Rightarrow> Inr False
      | e # _ \<Rightarrow>
          (let first_toc_page = (if length e > 2 then e ! 2 else TocInt (- 1)) in
           if first_toc_page = TocInt (int (pg_number p) + 1) \<and> pg_number p = 0 then Inr False
           else (case first_toc_page of
                   TocInt k \<Rightarrow> Inr (k > 1 \<and> pg_number p = 0)
                 | TocStr _ \<Rightarrow> Inl TypeError)))"

definition page_spans :: "page \<Rightarrow> span list" where
  "page_spans p = concat (map ln_spans (text_lines p))"

definition total_image_area :: "image_info list \<Rightarrow> real" where
  "total_image_area imgs =
     sum_list (map (\<lambda>i. case (im_has_bbox i, im_width i, im_height i) of
                          (True, Some w, Some h) \<Rightarrow> if w > 0 \<and> h > 0 then w * h else 0
                        | _ \<Rightarrow> 0) imgs)"

definition line_text :: "unicode \<Rightarrow> line \<Rightarrow> pystr" where
  "line_text U l = strip U (join [32] (map sp_text (ln_spans l)))"

definition normalize_spaces :: "unicode \<Rightarrow> pystr \<Rightarrow> pystr" where
  "normalize_spaces U t = join [32] (split U t)"

text \<open>\<open>unique_lines\<close>: a dict from the normalised text of a line to the largest size seen for it.\<close>

fun dict_get :: "('k \<times> 'v) list \<Rightarrow> 'k \<Rightarrow> 'v \<Rightarrow> 'v" where
  "dict_get [] k d = d"
| "dict_get ((k', v) # kvs) k d = (if k' = k then v else dict_get kvs k d)"

fun dict_set :: "'k \<Rightarrow> 'v \<Rightarrow> ('k \<times> 'v) list \<Rightarrow> ('k \<times> 'v) list" where
  "dict_set k v [] = [(k, v)]"
| "dict_set k v ((k', v') # kvs) = (if k' = k then (k, v) # kvs else (k', v') # dict_set k v kvs)"

fun collect_unique_lines ::
  "unicode \<Rightarrow> line list \<Rightarrow> (pystr \<times> real) list \<Rightarrow> py_error + (pystr \<times> real) list" where
  "collect_unique_lines U [] unique_lines = Inr unique_lines"
| "collect_unique_lines U (l # ls) unique_lines =
     (if line_text U l = [] then collect_unique_lines U ls unique_lines
      else case py_max (map sp_size (ln_spans l)) of
             Inl e \<Rightarrow> Inl e
           | Inr max_line_font_size \<Rightarrow>
               (let normalized_line_text = normalize_spaces U (line_text U l) in
                collect_unique_lines U ls
                  (dict_set normalized_line_text
                     (max (dict_get unique_lines normalized_line_text 0) max_line_font_size)
                     unique_lines)))"

definition body_text_lines_count :: "unicode \<Rightarrow> real \<Rightarrow> real \<Rightarrow> (pystr \<times> real) list \<Rightarrow> int" where
  "body_text_lines_count U avg_font_size max_font_size unique_lines =
     int (length (filter (\<lambda>(line_text, line_font_size).
            line_font_size \<le> avg_font_size * 1.2 \<and> length (split U line_text) > 4
            \<and> line_font_size < max_font_size * 0.8) unique_lines))"

text \<open>The loop over the spans, largest first, that counts the distinct prominent texts.\<close>

fun count_prominent :: "unicode \<Rightarrow> real \<Rightarrow> span list \<Rightarrow> pystr list \<Rightarrow> int \<Rightarrow> int" where
  "count_prominent U threshold [] processed n = n"
| "count_prominent U threshold (s # ss) processed n =
     (let normalized_text = normalize_spaces U (strip U (sp_text s)) in
      if normalized_text = [] then count_prominent U threshold ss processed n
      else if sp_size s > threshold \<and> normalized_text \<notin> set processed
           then count_prominent U threshold ss (normalized_text # processed) (n + 1)
           else count_prominent U threshold ss processed n)"

definition cover_heuristics :: "unicode \<Rightarrow> cover_params \<Rightarrow> page \<Rightarrow> py_error + bool" where
  "cover_heuristics U prm p =
    (let spans = page_spans p;
         page_area = pg_width p * pg_height p;
         has_significant_image =
           ((if page_area > 0 then total_image_area (pg_images p) / page_area else 0)
              > min_image_area_ratio prm)
     in
     if spans = [] then Inr has_significant_image
     else
       (let all_font_sizes = map sp_size spans;
            avg_font_size = sum_list all_font_sizes / real (length all_font_sizes)
        in case py_max all_font_sizes of
             Inl e \<Rightarrow> Inl e
           | Inr max_font_size \<Rightarrow>
          (let has_a_large_font = (max_font_size > avg_font_size * min_prominent_font_ratio prm) in
           case collect_unique_lines U (text_lines p) [] of
             Inl e \<Rightarrow> Inl e
           | Inr unique_lines \<Rightarrow>
          (let body_count = body_text_lines_count U avg_font_size max_font_size unique_lines in
           if body_count > max_body_text_lines prm then Inr False
           else
             (let prominent_text_elements_count =
                    count_prominent U (avg_font_size * min_prominent_font_ratio prm)
                      (sort_key (\<lambda>s. - sp_size s) spans) [] 0
              in
              if \<not> (min_prominent_elements prm \<le> prominent_text_elements_count
                     \<and> prominent_text_elements_count \<le> max_prominent_elements prm)
              then Inr False
              else
                (let main_title_bbox = sp_bbox (max_by sp_size (hd spans) (tl spans));
                     center_x_title = (bb_x0 main_title_bbox + bb_x1 main_title_bbox) / 2;
                     center_x_page = pg_width p / 2
                 in
                 if pg_width p = 0 then Inl ZeroDivisionError
                 else if pg_height p = 0 then Inl ZeroDivisionError
                 else
                   (let is_main_title_centered =
                          (\<bar>center_x_title - center_x_page\<bar> / pg_width p
                             < title_centering_threshold prm);
                        is_main_title_high_enough =
                          (bb_y0 main_title_bbox / pg_height p < title_vertical_pos_threshold prm);
                        is_very_sparse_overall = (length spans < 10 \<and> body_count = 0);
                        is_likely_cover =
                          (body_count \<le> max_body_text_lines prm \<and> has_a_large_font
                           \<and> is_main_title_centered \<and> is_main_title_high_enough
                           \<and> prominent_text_elements_count \<ge> min_prominent_elements prm
                           \<and> prominent_text_elements_count \<le> max_prominent_elements prm);
                        is_fallback_cover = (is_very_sparse_overall \<and> has_significant_image)
                    in Inr (is_likely_cover \<or> is_fallback_cover))))))))"

text \<open>
  \<open>_analyze_page_for_cover_characteristics\<close>: the body is one \<open>try\<close>, and the handler
  of every exception returns False.
\<close>

definition analyze_page_for_cover_characteristics ::
  "unicode \<Rightarrow> cover_params \<Rightarrow> page \<Rightarrow> document \<Rightarrow> bool" where
  "analyze_page_for_cover_characteristics U prm p doc =
     (case toc_says_cover p (doc_toc doc) of
        Inl e \<Rightarrow> False
      | Inr True \<Rightarrow> True
      | Inr False \<Rightarrow> (case cover_heuristics U prm p of Inl e \<Rightarrow> False | Inr b \<Rightarrow> b))"

text \<open>
  \<open>is_cover_page\<close>; the argument is what \<open>fitz.open\<close> gives for the path, a document or
  an exception.
\<close>

definition is_cover_page :: "unicode \<Rightarrow> cover_params \<Rightarrow> py_error + document \<Rightarrow> nat \<Rightarrow> bool" where
  "is_cover_page U prm opened page_number =
     (case opened of
        Inl e \<Rightarrow> False
      | Inr doc \<Rightarrow>
          if length (doc_pages doc) \<le> page_number then False
          else analyze_page_for_cover_characteristics U prm (doc_pages doc ! page_number) doc)"

section \<open>The title finder and the file name\<close>

record word =
  w_text :: pystr
  w_size :: real
  w_fontname :: pystr

text \<open>
  A page as \<open>pdfplumber\<close> shows it: what \<open>extract_text()\<close> and
  \<open>extract_words(extra_attrs=["size", "fontname"])\<close> give, a value or an exception.
\<close>

record plumber_page =
  pp_text :: "py_error + pystr"
  pp_words :: "py_error + word list"

text \<open>\<open>_find_first_content_page\<close>: the first page whose text is not blank; a page that raises is skipped.\<close>

fun find_first_content_page :: "unicode \<Rightarrow> plumber_page list \<Rightarrow> plumber_page option" where
  "find_first_content_page U [] = None"
| "find_first_content_page U (pg # pgs) =
     (case pp_text pg of
        Inl e \<Rightarrow> find_first_content_page U pgs
      | Inr t \<Rightarrow> if t \<noteq> [] \<and> strip U t \<noteq> [] then Some pg else find_first_content_page U pgs)"

definition safe_extract_words :: "plumber_page \<Rightarrow> word list" where
  "safe_extract_words pg = (case pp_words pg of Inl e \<Rightarrow> [] | Inr ws \<Rightarrow> ws)"

text \<open>
  The loop over the words; the state is \<open>current_title_words\<close>,
  \<open>current_font_size\<close> and \<open>current_font_name\<close>.
\<close>

fun title_words :: "unicode \<Rightarrow> word list \<Rightarrow> pystr list \<times> real \<times> pystr \<Rightarrow> pystr list \<times> real \<times> pystr" where
  "title_words U [] st = st"
| "title_words U (w # ws) (current_title_words, current_font_size, current_font_name) =
     (if length (strip U (w_text w)) \<le> 2 \<or> isdigit U (w_text w)
      then title_words U ws (current_title_words, current_font_size, current_font_name)
      else if w_size w > current_font_size
      then title_words U ws ([w_text w], w_size w, w_fontname w)
      else if w_size w = current_font_size \<and> w_fontname w = current_font_name
      then title_words U ws (current_title_words @ [w_text w], current_font_size, current_font_name)
      else title_words U ws (current_title_words, current_font_size, current_font_name))"

text \<open>\<open>os.path.splitext(os.path.basename(path))[0]\<close>, for POSIX paths.\<close>

definition basename :: "pystr \<Rightarrow> pystr" where
  "basename p = rev (takeWhile (\<lambda>c. c \<noteq> 47) (rev p))"

definition splitext_root :: "pystr \<Rightarrow> pystr" where
  "splitext_root b =
     (if 46 \<notin> set b then b
      else let root = rev (tl (dropWhile (\<lambda>c. c \<noteq> 46) (rev b)))
           in if list_ex (\<lambda>c. c \<noteq> 46) root then root else b)"

definition file_stem :: "pystr \<Rightarrow> pystr" where
  "file_stem p = splitext_root (basename p)"

text \<open>
  \<open>find_title\<close>, the \<open>"title"\<close> of the dict it returns; the third argument is what
  \<open>pdfplumber.open\<close> gives for the path.
\<close>

definition find_title :: "unicode \<Rightarrow> pystr \<Rightarrow> py_error + plumber_page list \<Rightarrow> py_error + pystr" where
  "find_title U pdf_path opened =
     (case opened of
        Inl e \<Rightarrow> Inl e
      | Inr pdf \<Rightarrow>
          (let title =
                 (case find_first_content_page U pdf of
                    None \<Rightarrow> []
                  | Some first_content_page \<Rightarrow>
                      (let (current_title_words, current_font_size, current_font_name) =
                             title_words U (safe_extract_words first_content_page) ([], 0, []);
                           raw_title = strip U (join [32] current_title_words)
                       in deduplicate_title raw_title))
           in Inr (if title \<noteq> [] then title else file_stem pdf_path)))"

section \<open>The outline extractor\<close>

text \<open>\<open>sub in s\<close> and \<open>s.count(sub)\<close> for a substring that is not empty.\<close>

fun starts_with :: "pystr \<Rightarrow> pystr \<Rightarrow> bool" where
  "starts_with s [] = True"
| "starts_with [] (p # ps) = False"
| "starts_with (c # cs) (p # ps) = (c = p \<and> starts_with cs ps)"

fun contains :: "pystr \<Rightarrow> pystr \<Rightarrow> bool" where
  "contains [] sub = (sub = [])"
| "contains (c # cs) sub = (starts_with (c # cs) sub \<or> contains cs sub)"

fun count_sub :: "pystr \<Rightarrow> pystr \<Rightarrow> nat" where
  "count_sub [] sub = 0"
| "count_sub (c # cs) sub =
     (if starts_with (c # cs) sub then 1 + count_sub (drop (length sub - 1) cs) sub
      else count_sub cs sub)"

text \<open>
  \<open>round(x, 1)\<close>: the nearest multiple of a tenth, a tie going to the even one.
\<close>

definition round1 :: "real \<Rightarrow> real" where
  "round1 x =
     (let y = x * 10; f = \<lfloor>y\<rfloor>; d = y - of_int f
      in of_int (if d < 1 / 2 then f else if d > 1 / 2 then f + 1
                 else if even f then f else f + 1) / 10)"

text \<open>\<open>_is_bold_font\<close>.\<close>

definition is_bold_font :: "unicode \<Rightarrow> pystr \<Rightarrow> bool" where
  "is_bold_font U font_name =
     (if font_name = [] then False
      else list_ex (\<lambda>keyword. contains (lower U font_name) (cps keyword))
             [''bold'', ''black'', ''heavy'', ''demi'', ''bld'', ''700'', ''800'', ''900''])"

text \<open>
  The state of an extractor that the scan reads: \<open>self.page_dimensions\<close> and
  \<open>self.is_first_page_cover\<close>. The thresholds are the constants of \<open>__init__\<close>.
\<close>

definition header_footer_threshold :: real where "header_footer_threshold = 0.1"
definition form_field_threshold :: real where "form_field_threshold = 0.15"
definition line_merge_tolerance_y :: real where "line_merge_tolerance_y = 7"
definition line_merge_tolerance_x :: real where "line_merge_tolerance_x = 20"

text \<open>\<open>_is_header_footer\<close>; the division raises when the page height is zero.\<close>

definition is_header_footer :: "real \<times> real \<Rightarrow> bbox \<Rightarrow> py_error + bool" where
  "is_header_footer page_dimensions line_bbox =
     (if snd page_dimensions = 0 then Inl ZeroDivisionError
      else
        (let y_pos_ratio = bb_y0 line_bbox / snd page_dimensions in
         if y_pos_ratio < header_footer_threshold \<or> y_pos_ratio > 1 - header_footer_threshold
         then Inr True
         else
           (let x_center = fst page_dimensions / 2;
                line_center = (bb_x0 line_bbox + bb_x1 line_bbox) / 2
            in Inr (\<bar>line_center - x_center\<bar> < 20))))"

text \<open>\<open>_is_form_page\<close>.\<close>

definition form_indications :: "unicode \<Rightarrow> pystr \<Rightarrow> nat" where
  "form_indications U t =
     count_sub t (cps '':_____'') + count_sub t (cps '': ___'') + count_sub t [58, 10]
     + sum_list (map (\<lambda>label. count_sub (lower U t) (cps label))
          [''name:'', ''date:'', ''signature:'', ''address:'', ''phone:'', ''email:'',
           ''id number:'', ''ssn:'', ''account:''])
     + (if contains t (cps ''|   |'') \<or> contains t (cps ''|___|'')
           \<or> contains t (cps ''___ ___ ___ '') then 3 else 0)"

definition is_form_page :: "unicode \<Rightarrow> real \<times> real \<Rightarrow> page \<Rightarrow> py_error + bool" where
  "is_form_page U page_dimensions p =
     (let widgets = pg_widgets p;
          form_area = sum_list (map (\<lambda>(w, h). w * h) widgets);
          page_area = fst page_dimensions * snd page_dimensions
      in
      if widgets \<noteq> [] \<and> page_area = 0 then Inl ZeroDivisionError
      else if widgets \<noteq> [] \<and> form_area / page_area > form_field_threshold then Inr True
      else Inr (form_indications U (pg_plain_text p) \<ge> 3))"

text \<open>
  \<open>_analyze_document_styles\<close>. The innermost loop adds the length of the stripped
  text of a span to the counters of its rounded size.
\<close>

definition add_span_stats :: "unicode \<Rightarrow> span \<Rightarrow> font_stats \<Rightarrow> font_stats" where
  "add_span_stats U sp fs =
     (let font_size = round1 (sp_size sp);
          is_bold = is_bold_font U (sp_font sp);
          t = strip U (sp_text sp)
      in
      if t = [] then fs
      else
        (let st = dict_get fs font_size \<lparr>char_count = 0, bold_count = 0\<rparr>;
             st1 = st\<lparr>char_count := char_count st + int (length t)\<rparr>;
             st2 = (if is_bold then st1\<lparr>bold_count := bold_count st1 + int (length t)\<rparr> else st1)
         in dict_set font_size st2 fs))"

fun analyze_lines :: "unicode \<Rightarrow> real \<times> real \<Rightarrow> line list \<Rightarrow> font_stats \<Rightarrow> py_error + font_stats" where
  "analyze_lines U pd [] fs = Inr fs"
| "analyze_lines U pd (l # ls) fs =
     (if ln_spans l = [] then analyze_lines U pd ls fs
      else case is_header_footer pd (ln_bbox l) of
             Inl e \<Rightarrow> Inl e
           | Inr True \<Rightarrow> analyze_lines U pd ls fs
           | Inr False \<Rightarrow> analyze_lines U pd ls (fold (add_span_stats U) (ln_spans l) fs))"

fun analyze_pages :: "unicode \<Rightarrow> real \<times> real \<Rightarrow> page list \<Rightarrow> font_stats \<Rightarrow> py_error + font_stats" where
  "analyze_pages U pd [] fs = Inr fs"
| "analyze_pages U pd (p # ps) fs =
     (case is_form_page U pd p of
        Inl e \<Rightarrow> Inl e
      | Inr True \<Rightarrow> analyze_pages U pd ps fs
      | Inr False \<Rightarrow>
          (case analyze_lines U pd (text_lines p) fs of
             Inl e \<Rightarrow> Inl e
           | Inr fs' \<Rightarrow> analyze_pages U pd ps fs'))"

definition start_page_idx :: "bool \<Rightarrow> nat" where
  "start_page_idx is_first_page_cover = (if is_first_page_cover then 1 else 0)"

definition analyze_document_styles ::
  "unicode \<Rightarrow> real \<times> real \<Rightarrow> bool \<Rightarrow> document \<Rightarrow> py_error + font_stats" where
  "analyze_document_styles U pd is_first_page_cover doc =
     analyze_pages U pd (take 20 (drop (start_page_idx is_first_page_cover) (doc_pages doc))) []"

text \<open>
  \<open>_get_clean_text_blocks\<close>. A \<open>Counter\<close> is a dict in the order of insertion, and
  \<open>most_common(1)\<close> is its first entry with the highest count.
\<close>

definition counter_add :: "'k \<Rightarrow> nat \<Rightarrow> ('k \<times> nat) list \<Rightarrow> ('k \<times> nat) list" where
  "counter_add k n c = dict_set k (dict_get c k 0 + n) c"

definition most_common :: "('k \<times> nat) list \<Rightarrow> 'k \<Rightarrow> 'k" where
  "most_common c d = (case c of [] \<Rightarrow> d | kv # kvs \<Rightarrow> fst (max_by snd kv kvs))"

text \<open>The text, the dominant size and the dominant weight of a line; spans of blank text are left out.\<close>

definition line_info :: "unicode \<Rightarrow> line \<Rightarrow> block" where
  "line_info U l =
     (let spans = filter (\<lambda>sp. strip U (sp_text sp) \<noteq> []) (ln_spans l);
          size_counter = fold (\<lambda>sp. counter_add (round1 (sp_size sp)) (length (sp_text sp))) spans [];
          bold_counter = fold (\<lambda>sp. counter_add (is_bold_font U (sp_font sp)) (length (sp_text sp))) spans []
      in \<lparr>b_text = strip U (concat (map sp_text spans)),
          b_size = most_common size_counter 0,
          b_is_bold = most_common bold_counter False,
          b_bbox = [bb_x0 (ln_bbox l), bb_y0 (ln_bbox l), bb_x1 (ln_bbox l), bb_y1 (ln_bbox l)],
          b_origin_x = bb_x0 (ln_bbox l),
          b_origin_y = bb_y0 (ln_bbox l)\<rparr>)"

text \<open>The merge of a line into \<open>current_merged_block\<close>, or the start of a new block.\<close>

definition merges_with :: "block \<Rightarrow> block \<Rightarrow> bool" where
  "merges_with li cur =
     (\<bar>b_origin_y li - b_bbox cur ! 3\<bar> < line_merge_tolerance_y
      \<and> \<bar>b_size li - b_size cur\<bar> < 0.5
      \<and> b_is_bold li = b_is_bold cur
      \<and> \<bar>b_origin_x li - b_origin_x cur\<bar> < line_merge_tolerance_x)"

definition merge_line :: "block \<Rightarrow> block \<Rightarrow> block" where
  "merge_line li cur =
     cur\<lparr>b_text := b_text cur @ [32] @ b_text li,
         b_bbox := (b_bbox cur)[3 := b_bbox li ! 3],
         b_origin_y := b_origin_y li\<rparr>"

fun clean_lines ::
  "unicode \<Rightarrow> real \<times> real \<Rightarrow> line list \<Rightarrow> block list \<times> block option \<Rightarrow> py_error + (block list \<times> block option)" where
  "clean_lines U pd [] st = Inr st"
| "clean_lines U pd (l # ls) (blocks, current_merged_block) =
     (if ln_spans l = [] then clean_lines U pd ls (blocks, current_merged_block)
      else case is_header_footer pd (ln_bbox l) of
             Inl e \<Rightarrow> Inl e
           | Inr True \<Rightarrow> clean_lines U pd ls (blocks, current_merged_block)
           | Inr False \<Rightarrow>
               (let li = line_info U l in
                if b_text li = [] then clean_lines U pd ls (blocks, current_merged_block)
                else (case current_merged_block of
                        None \<Rightarrow> clean_lines U pd ls (blocks, Some li)
                      | Some cur \<Rightarrow>
                          if merges_with li cur
                          then clean_lines U pd ls (blocks, Some (merge_line li cur))
                          else clean_lines U pd ls (blocks @ [cur], Some li))))"

definition get_clean_text_blocks :: "unicode \<Rightarrow> real \<times> real \<Rightarrow> page \<Rightarrow> py_error + block list" where
  "get_clean_text_blocks U pd p =
     (case clean_lines U pd (text_lines p) ([], None) of
        Inl e \<Rightarrow> Inl e
      | Inr (blocks, None) \<Rightarrow> Inr blocks
      | Inr (blocks, Some cur) \<Rightarrow> Inr (blocks @ [cur]))"

text \<open>
  \<open>_identify_heading_styles\<close>: the candidate styles, sorted by
  \<open>(-score, -size, -char_count)\<close>, then the first three whose sizes differ by 0.5 or
  more from every size kept before.
\<close>

fun heading_candidates :: "real \<Rightarrow> font_stats \<Rightarrow> py_error + heading_style list" where
  "heading_candidates body_size [] = Inr []"
| "heading_candidates body_size ((sz, stats) # rest) =
     (if sz \<le> body_size * 0.95 then heading_candidates body_size rest
      else if body_size = 0 then Inl ZeroDivisionError
      else
        (let size_ratio = sz / body_size;
             is_bold_likely = (real_of_int (bold_count stats) / real_of_int (max 1 (char_count stats)) > 0.6)
         in case heading_candidates body_size rest of
              Inl e \<Rightarrow> Inl e
            | Inr cands \<Rightarrow>
                if size_ratio \<ge> min_heading_ratio \<or> is_bold_likely
                then Inr (\<lparr>hs_size = sz, hs_is_bold = is_bold_likely,
                           hs_score = size_ratio * 50 + (if is_bold_likely then 40 else 0),
                           hs_char_count = char_count stats\<rparr> # cands)
                else Inr cands))"

fun distinct_styles :: "heading_style list \<Rightarrow> heading_style list \<Rightarrow> heading_style list" where
  "distinct_styles [] kept = kept"
| "distinct_styles (style # styles) kept =
     (if list_ex (\<lambda>k. \<bar>hs_size style - hs_size k\<bar> < 0.5) kept then distinct_styles styles kept
      else if length (kept @ [style]) \<ge> 3 then kept @ [style]
      else distinct_styles styles (kept @ [style]))"

definition identify_heading_styles :: "font_stats \<Rightarrow> real \<Rightarrow> py_error + heading_style list" where
  "identify_heading_styles fs body_size =
     (case heading_candidates body_size fs of
        Inl e \<Rightarrow> Inl e
      | Inr cands \<Rightarrow>
          Inr (distinct_styles
                 (sort_key (\<lambda>x. (- hs_score x, - hs_size x, - hs_char_count x)) cands) []))"

text \<open>
  \<open>_extract_headings_from_content\<close>: the loop over the blocks of a page and the loop
  over the pages; the state is \<open>outline_candidates\<close> and \<open>prev_heading_context\<close>.
\<close>

fun scan_blocks ::
  "unicode \<Rightarrow> real \<times> real \<Rightarrow> real \<Rightarrow> heading_style list \<Rightarrow> int \<Rightarrow> block list \<Rightarrow>
   entry list \<times> prev_heading option \<Rightarrow> py_error + (entry list \<times> prev_heading option)" where
  "scan_blocks U pd body_size heading_styles page_num [] st = Inr st"
| "scan_blocks U pd body_size heading_styles page_num (blk # blks) (outline_candidates, prev) =
     (if is_heading_candidate U blk body_size then
        (case determine_heading_level U (fst pd) blk heading_styles prev of
           Inl e \<Rightarrow> Inl e
         | Inr level \<Rightarrow>
             scan_blocks U pd body_size heading_styles page_num blks
               (outline_candidates @ [\<lparr>e_level = level, e_text = b_text blk, e_page = page_num\<rparr>],
                Some \<lparr>ph_level = level, ph_size = b_size blk, ph_origin_x = b_origin_x blk,
                      ph_origin_y = b_origin_y blk, ph_bbox = b_bbox blk\<rparr>))
      else scan_blocks U pd body_size heading_styles page_num blks (outline_candidates, prev))"

fun scan_pages ::
  "unicode \<Rightarrow> real \<times> real \<Rightarrow> real \<Rightarrow> heading_style list \<Rightarrow> int \<Rightarrow> page list \<Rightarrow>
   entry list \<times> prev_heading option \<Rightarrow> py_error + (entry list \<times> prev_heading option)" where
  "scan_pages U pd body_size heading_styles page_num [] st = Inr st"
| "scan_pages U pd body_size heading_styles page_num (p # ps) st =
     (case is_form_page U pd p of
        Inl e \<Rightarrow> Inl e
      | Inr True \<Rightarrow> scan_pages U pd body_size heading_styles (page_num + 1) ps st
      | Inr False \<Rightarrow>
          (case get_clean_text_blocks U pd p of
             Inl e \<Rightarrow> Inl e
           | Inr text_blocks_on_page \<Rightarrow>
               (case scan_blocks U pd body_size heading_styles page_num text_blocks_on_page st of
                  Inl e \<Rightarrow> Inl e
                | Inr st' \<Rightarrow> scan_pages U pd body_size heading_styles (page_num + 1) ps st')))"

definition extract_headings_from_content ::
  "unicode \<Rightarrow> real \<times> real \<Rightarrow> bool \<Rightarrow> font_stats \<Rightarrow> document \<Rightarrow> py_error + entry list" where
  "extract_headings_from_content U pd is_first_page_cover fs doc =
     (if fs = [] then Inr []
      else
        (let body_size = determine_body_text_size fs in
         case identify_heading_styles fs body_size of
           Inl e \<Rightarrow> Inl e
         | Inr heading_styles \<Rightarrow>
             if heading_styles = [] then Inr []
             else (case scan_pages U pd body_size heading_styles
                          (int (start_page_idx is_first_page_cover))
                          (drop (start_page_idx is_first_page_cover) (doc_pages doc)) ([], None) of
                     Inl e \<Rightarrow> Inl e
                   | Inr (outline_candidates, prev) \<Rightarrow> Inr outline_candidates)))"

text \<open>
  \<open>_extract_document_title\<close>, which runs when no title was supplied. A candidate is a
  line of the upper 40 percent of the first scanned page.
\<close>

record title_candidate =
  tc_text :: pystr
  tc_size :: real
  tc_is_bold :: bool
  tc_y_top :: real
  tc_y_bottom :: real
  tc_x_left :: real

fun title_candidates :: "unicode \<Rightarrow> real \<times> real \<Rightarrow> line list \<Rightarrow> py_error + title_candidate list" where
  "title_candidates U pd [] = Inr []"
| "title_candidates U pd (l # ls) =
     (if ln_spans l = [] then title_candidates U pd ls
      else case is_header_footer pd (ln_bbox l) of
             Inl e \<Rightarrow> Inl e
           | Inr True \<Rightarrow> title_candidates U pd ls
           | Inr False \<Rightarrow>
               (let line_text = strip U (concat (map sp_text (ln_spans l))) in
                if line_text = [] then title_candidates U pd ls
                else case py_max (map sp_size (ln_spans l)) of
                       Inl e \<Rightarrow> Inl e
                     | Inr dominant_size \<Rightarrow>
                         (case title_candidates U pd ls of
                            Inl e \<Rightarrow> Inl e
                          | Inr cands \<Rightarrow>
                              if bb_y0 (ln_bbox l) / snd pd < 0.4
                              then Inr (\<lparr>tc_text = line_text, tc_size = dominant_size,
                                         tc_is_bold = list_ex (\<lambda>sp. is_bold_font U (sp_font sp)) (ln_spans l),
                                         tc_y_top = bb_y0 (ln_bbox l), tc_y_bottom = bb_y1 (ln_bbox l),
                                         tc_x_left = bb_x0 (ln_bbox l)\<rparr> # cands)
                              else Inr cands)))"

text \<open>
  The main title is the first candidate, in the sorted order, that is large enough, is
  not a bare number or capital letter and has more than one word; \<open>find_main_title\<close>
  gives its index, or 0 when there is none.
\<close>

definition is_main_title :: "unicode \<Rightarrow> real \<Rightarrow> title_candidate \<Rightarrow> bool" where
  "is_main_title U top_size cand =
     (tc_size cand \<ge> top_size * 0.85
      \<and> \<not> re_match (Seq (rx_number U) Eos) (strip U (tc_text cand))
      \<and> \<not> re_match (Seq (Cls is_ascii_upper) Eos) (strip U (tc_text cand))
      \<and> length (split U (tc_text cand)) > 1)"

fun find_main_title :: "unicode \<Rightarrow> real \<Rightarrow> title_candidate list \<Rightarrow> nat \<Rightarrow> nat" where
  "find_main_title U top_size [] i = 0"
| "find_main_title U top_size (cand # cands) i =
     (if is_main_title U top_size cand then i else find_main_title U top_size cands (i + 1))"

text \<open>The loop that appends the lines below the main title; the triple is \<open>last_part_info\<close>.\<close>

fun merge_title_parts ::
  "unicode \<Rightarrow> real \<Rightarrow> title_candidate list \<Rightarrow> pystr list \<Rightarrow> real \<times> real \<times> real \<Rightarrow> pystr list" where
  "merge_title_parts U page_height [] final_title_parts last_part_info = final_title_parts"
| "merge_title_parts U page_height (next_part # rest) final_title_parts (y_bottom, x_left, sz) =
     (if \<bar>tc_y_top next_part - y_bottom\<bar> < 1.5 * tc_size next_part
         \<and> \<bar>tc_size next_part - sz\<bar> < 2
         \<and> \<bar>tc_x_left next_part - x_left\<bar> < 20
         \<and> tc_y_top next_part / page_height < 0.5
      then
        (if (is_lower_char U (hd (tc_text next_part)) \<and> length (split U (tc_text next_part)) > 7)
            \<or> (length (split U (tc_text next_part)) < 3 \<and> \<not> isupper U (tc_text next_part)
                \<and> \<not> re_match (Seq (rx_number U) (Star (Cls (is_space U)))) (tc_text next_part))
         then final_title_parts
         else merge_title_parts U page_height rest (final_title_parts @ [tc_text next_part])
                (tc_y_bottom next_part, tc_x_left next_part, tc_size next_part))
      else final_title_parts)"

definition extract_document_title ::
  "unicode \<Rightarrow> real \<times> real \<Rightarrow> bool \<Rightarrow> document \<Rightarrow> py_error + pystr" where
  "extract_document_title U pd is_first_page_cover doc =
     (if length (doc_pages doc) = 0 then Inr []
      else if start_page_idx is_first_page_cover \<ge> length (doc_pages doc) then Inr []
      else
        (case title_candidates U pd
                (text_lines (doc_pages doc ! start_page_idx is_first_page_cover)) of
           Inl e \<Rightarrow> Inl e
         | Inr [] \<Rightarrow> Inr []
         | Inr (c # cs) \<Rightarrow>
             (let sorted = sort_key (\<lambda>x. (- tc_size x, tc_y_top x, \<not> tc_is_bold x)) (c # cs);
                  idx = find_main_title U (tc_size (hd sorted)) sorted 0;
                  potential_main_title = sorted ! idx
              in Inr (join [32]
                        (merge_title_parts U (snd pd) (drop (idx + 1) sorted)
                           [tc_text potential_main_title]
                           (tc_y_bottom potential_main_title, tc_x_left potential_main_title,
                            tc_size potential_main_title))))))"

section \<open>The result record and the pipeline\<close>

text \<open>The values that are returned and written: strings, integers, lists and dicts.\<close>

datatype json = JStr pystr | JInt int | JList "json list" | JDict "(string \<times> json) list"

definition json_of_entry :: "entry \<Rightarrow> json" where
  "json_of_entry e =
     JDict [(''level'', JStr (e_level e)), (''text'', JStr (e_text e)), (''page'', JInt (e_page e))]"

text \<open>The dict that the early return and the exception handler build.\<close>

definition empty_outline :: "pystr \<Rightarrow> pystr \<Rightarrow> json" where
  "empty_outline document_title pdf_path =
     JDict [(''title'', JStr (if document_title \<noteq> [] then document_title else file_stem pdf_path)),
            (''outline'', JList [])]"

text \<open>
  The assignment to \<open>self.document_title\<close> when no title was supplied: the extracted
  title, or the base name of the file.
\<close>

definition resolve_title ::
  "unicode \<Rightarrow> real \<times> real \<Rightarrow> bool \<Rightarrow> pystr \<Rightarrow> pystr \<Rightarrow> document \<Rightarrow> py_error + pystr" where
  "resolve_title U pd is_first_page_cover document_title pdf_path doc =
     (if document_title \<noteq> [] then Inr document_title
      else case extract_document_title U pd is_first_page_cover doc of
             Inl e \<Rightarrow> Inl e
           | Inr extracted_title \<Rightarrow>
               Inr (if extracted_title \<noteq> [] then extracted_title else file_stem pdf_path))"

text \<open>
  \<open>extract_outline\<close> of an extractor made with the given title and cover flag;
  \<open>opened\<close> is what \<open>fitz.open\<close> gives for the path. The body is one \<open>try\<close> whose
  handler catches every exception, so a value is returned on every path: the dict of
  the handler, with the title as it stands when the exception is raised, or the list
  of the refiner.
\<close>

definition extract_outline ::
  "unicode \<Rightarrow> pystr \<Rightarrow> bool \<Rightarrow> pystr \<Rightarrow> py_error + document \<Rightarrow> json" where
  "extract_outline U document_title is_first_page_cover pdf_path opened =
     (case opened of
        Inl e \<Rightarrow> empty_outline document_title pdf_path
      | Inr doc \<Rightarrow>
          if length (doc_pages doc) = 0 then empty_outline document_title pdf_path
          else
            (let page_dimensions = (pg_width (hd (doc_pages doc)), pg_height (hd (doc_pages doc))) in
             case analyze_document_styles U page_dimensions is_first_page_cover doc of
               Inl e \<Rightarrow> empty_outline document_title pdf_path
             | Inr font_stats \<Rightarrow>
                 (case resolve_title U page_dimensions is_first_page_cover document_title pdf_path doc of
                    Inl e \<Rightarrow> empty_outline document_title pdf_path
                  | Inr title \<Rightarrow>
                      (case extract_headings_from_content U page_dimensions is_first_page_cover
                              font_stats doc of
                         Inl e \<Rightarrow> empty_outline title pdf_path
                       | Inr outline_candidates \<Rightarrow>
                           (case refine_fresh U outline_candidates of
                              Inl e \<Rightarrow> empty_outline title pdf_path
                            | Inr refined_outline \<Rightarrow> JList (map json_of_entry refined_outline))))))"

text \<open>
  \<open>process_pdf\<close>: the \<open>result\<close> dict that is written to the output file. The two
  libraries open the same file: \<open>plumber\<close> is what \<open>pdfplumber.open\<close> gives, \<open>opened\<close>
  what \<open>fitz.open\<close> gives.
\<close>

definition process_pdf ::
  "unicode \<Rightarrow> pystr \<Rightarrow> py_error + plumber_page list \<Rightarrow> py_error + document \<Rightarrow> json" where
  "process_pdf U input_path plumber opened =
     (let title = (case find_title U input_path plumber of
                     Inl e \<Rightarrow> file_stem input_path
                   | Inr t \<Rightarrow> t);
          is_first_page_cover = is_cover_page U default_cover_params opened 0;
          outline = extract_outline U title is_first_page_cover input_path opened
      in JDict [(''title'', JStr title), (''outline'', outline)])"

section \<open>Concrete inputs\<close>

text \<open>
  Tables under which no code point from 128 upwards is a space, a letter or a digit;
  the concrete texts below are ASCII, where the tables are not consulted.
\<close>

definition ascii_only :: unicode where
  "ascii_only =
     \<lparr>uc_space = (\<lambda>c. False), uc_alnum = (\<lambda>c. False), uc_decimal = (\<lambda>c. False),
      uc_decimal_value = (\<lambda>c. 0), uc_digit = (\<lambda>c. False), uc_upper = (\<lambda>c. False),
      uc_lower = (\<lambda>c. False), uc_title = (\<lambda>c. False), uc_tolower = (\<lambda>c. [c])\<rparr>"

definition mk_block :: "string \<Rightarrow> real \<Rightarrow> bool \<Rightarrow> block" where
  "mk_block t sz bold =
     \<lparr>b_text = cps t, b_size = sz, b_is_bold = bold, b_bbox = [72, 100, 300, 120],
      b_origin_x = 72, b_origin_y = 100\<rparr>"

text \<open>
  The spacing ratio of a text in the words of the specification: the count of spaces
  over the count of the other characters.
\<close>

definition space_ratio :: "pystr \<Rightarrow> real" where
  "space_ratio t = real (count_char 32 t) / real (length t - count_char 32 t)"

text \<open>
  Two tables of statistics: one with sizes in the band from 8 to 14, and one with
  none, whose larger size is all bold.
\<close>

definition stats_with_band :: font_stats where
  "stats_with_band =
     [(10, \<lparr>char_count = 500, bold_count = 20\<rparr>), (12, \<lparr>char_count = 900, bold_count = 880\<rparr>),
      (18, \<lparr>char_count = 60, bold_count = 60\<rparr>)]"

definition stats_without_band :: font_stats where
  "stats_without_band =
     [(20, \<lparr>char_count = 100, bold_count = 100\<rparr>), (16, \<lparr>char_count = 50, bold_count = 0\<rparr>)]"

text \<open>
  A first page with one centred line of 36pt text and nothing else, a document of that
  page whose table of contents has one entry that points to the given page, and a
  document with no pages.
\<close>

definition title_line :: line where
  "title_line =
     \<lparr>ln_spans = [\<lparr>sp_text = cps ''Annual Report'', sp_size = 36, sp_font = cps ''Helvetica'',
                   sp_bbox = (186, 200, 426, 236)\<rparr>],
      ln_bbox = (186, 200, 426, 236)\<rparr>"

definition title_page :: page where
  "title_page =
     \<lparr>pg_number = 0, pg_width = 612, pg_height = 792, pg_blocks = [TextBlock [title_line]],
      pg_images = [], pg_plain_text = cps ''Annual Report'', pg_widgets = []\<rparr>"

definition doc_with_toc :: "int \<Rightarrow> document" where
  "doc_with_toc n =
     \<lparr>doc_pages = [title_page], doc_toc = [[TocInt 1, TocStr (cps ''Introduction''), TocInt n]]\<rparr>"

definition empty_document :: document where
  "empty_document = \<lparr>doc_pages = [], doc_toc = []\<rparr>"


section \<open>Evaluation lemmas\<close>

lemmas class_defs = is_space_def is_decimal_def is_ascii_upper_def is_ascii_lower_def
  is_ascii_digit_def is_word_def is_upper_char_def is_lower_char_def is_title_char_def ieq_def
  is_bullet_or_space_def

lemmas regex_defs = seqs_def alts_def plus_def opt_def chr_def lit_i_def rx_number_def
  re_match_def re_search_def re_match_group_def

lemma str_of_nat_digit: "n < 10 \<Longrightarrow> str_of_nat n = [48 + n]"
  by (simp add: str_of_nat.simps)

section \<open>Properties of the hierarchy refiner\<close>

lemma level_num_outline:
  "is_outline_level l \<Longrightarrow> level_num U l = Inr (nat (depth l)) \<and> 1 \<le> depth l \<and> depth l \<le> 3"
  by (auto simp: is_outline_level_def level_num_def depth_def cps_def is_ascii_digit_def)

lemma nesting_ok_snoc:
  "nesting_ok (xs @ [x]) = (nesting_ok xs \<and> (xs = [] \<or> x - last xs \<le> 1))"
  by (induction xs rule: nesting_ok.induct) auto

text \<open>
  Lowering one depth from 3 to 2 keeps a sequence of depths of at most 3 nested: this
  is what an assignment to an entry that already stands in the kept list does.
\<close>

lemma nesting_ok_lower:
  "nesting_ok (map d xs) \<Longrightarrow> list_all (\<lambda>x. d x \<le> 3) xs \<Longrightarrow> d r = 3 \<Longrightarrow>
   nesting_ok (map (d(r := 2)) xs)"
proof (induction xs rule: induct_list012)
  case (3 x y zs)
  then show ?case by auto
qed simp_all

lemma clamp_levels_invariant:
  assumes "final \<noteq> []"
    and "list_all (\<lambda>r. is_outline_level (e_level (h r))) (final @ rs)"
    and "nesting_ok (map (\<lambda>r. depth (e_level (h r))) final)"
  shows "\<exists>h' out. clamp_levels U rs (h, final) = Inr (h', out)
           \<and> list_all (\<lambda>r. is_outline_level (e_level (h' r))) out
           \<and> nesting_ok (map (\<lambda>r. depth (e_level (h' r))) out)"
  using assms
proof (induction rs arbitrary: h final)
  case Nil
  then show ?case by simp
next
  case (Cons r rs)
  let ?d = "\<lambda>x. depth (e_level (h x))"
  obtain f fs where fin: "final = f # fs" using Cons.prems(1) by (cases final) auto
  have lr: "is_outline_level (e_level (h r))" using Cons.prems(2) by simp
  have "last final \<in> set final" using Cons.prems(1) by simp
  then have lp: "is_outline_level (e_level (h (last final)))"
    using Cons.prems(2) by (auto simp: list_all_iff)
  note cur = level_num_outline[OF lr, of U]
  note prv = level_num_outline[OF lp, of U]
  define h' where "h' = (if nat (?d r) > nat (?d (last final)) + 1
                         then h(r := (h r)\<lparr>e_level := cps ''H'' @ str_of_nat (nat (?d (last final)) + 1)\<rparr>)
                         else h)"
  have step: "clamp_levels U (r # rs) (h, final) =
      (if is_excluded_word U (e_text (h' r)) then clamp_levels U rs (h', final)
       else clamp_levels U rs (h', final @ [r]))"
    using cur prv by (simp add: fin h'_def Let_def)
  have all: "list_all (\<lambda>x. is_outline_level (e_level (h x))) (final @ r # rs)"
    using Cons.prems(2) .
  show ?case
  proof (cases "nat (?d r) > nat (?d (last final)) + 1")
    case True
    then have dr: "?d r = 3" and dl: "?d (last final) = 1" using cur prv by auto
    have "str_of_nat (nat 1 + 1) = [50]" by (simp add: str_of_nat_digit)
    then have h': "h' = h(r := (h r)\<lparr>e_level := cps ''H2''\<rparr>)"
      using True by (simp add: h'_def dl cps_def)
    have d': "(\<lambda>x. depth (e_level (h' x))) = ?d(r := 2)"
      by (auto simp: h' depth_def cps_def fun_eq_iff)
    have lv': "is_outline_level (e_level (h' x)) = (x = r \<or> is_outline_level (e_level (h x)))" for x
      using lr by (auto simp: h' is_outline_level_def)
    have all': "list_all (\<lambda>x. is_outline_level (e_level (h' x))) (final @ r # rs)"
      using all by (auto simp: list_all_iff lv')
    have le3: "list_all (\<lambda>x. ?d x \<le> 3) final"
      using Cons.prems(2) level_num_outline[of _ U] by (auto simp: list_all_iff)
    have n1: "nesting_ok (map (\<lambda>x. depth (e_level (h' x))) final)"
      unfolding d' using nesting_ok_lower[OF Cons.prems(3) le3 dr] .
    have neq: "last final \<noteq> r" using dr dl by auto
    have n2: "nesting_ok (map (\<lambda>x. depth (e_level (h' x))) (final @ [r]))"
      using n1 neq dl Cons.prems(1) by (simp add: nesting_ok_snoc d' last_map)
    show ?thesis
    proof (cases "is_excluded_word U (e_text (h' r))")
      case True
      have "list_all (\<lambda>x. is_outline_level (e_level (h' x))) (final @ rs)"
        using all' by simp
      from Cons.IH[OF Cons.prems(1) this n1] show ?thesis using step True by simp
    next
      case False
      have "list_all (\<lambda>x. is_outline_level (e_level (h' x))) ((final @ [r]) @ rs)"
        using all' by simp
      from Cons.IH[OF _ this n2] show ?thesis using step False by simp
    qed
  next
    case False
    then have h': "h' = h" by (simp add: h'_def)
    have le: "?d r - ?d (last final) \<le> 1" using False cur prv by auto
    have n2: "nesting_ok (map ?d (final @ [r]))"
      using Cons.prems(1,3) le by (simp add: nesting_ok_snoc last_map)
    show ?thesis
    proof (cases "is_excluded_word U (e_text (h' r))")
      case True
      have "list_all (\<lambda>x. is_outline_level (e_level (h x))) (final @ rs)"
        using all by simp
      from Cons.IH[OF Cons.prems(1) this Cons.prems(3)] show ?thesis using step True h' by simp
    next
      case False
      have "list_all (\<lambda>x. is_outline_level (e_level (h x))) ((final @ [r]) @ rs)"
        using all by simp
      from Cons.IH[OF _ this n2] show ?thesis using step False h' by simp
    qed
  qed
qed

lemma drop_duplicates_subset: "set (drop_duplicates h l rs) \<subseteq> set rs"
  by (induction rs arbitrary: l) auto

text \<open>
  Claim C1. For every store and every list of references to entries whose levels are
  H1, H2 or H3 (the same entry may occur several times), \<open>_refine_hierarchy\<close> returns
  a list, and in the returned list, read from the store as the call leaves it, every
  level is H1, H2 or H3 and the depth of each entry exceeds the depth of the entry
  before it by at most one.
\<close>

theorem refine_hierarchy_nesting:
  assumes "list_all (\<lambda>r. is_outline_level (e_level (h r))) outline_candidates"
  shows "\<exists>es. refined_entries U h outline_candidates = Inr es
           \<and> list_all (\<lambda>e. is_outline_level (e_level e)) es
           \<and> nesting_ok (map (\<lambda>e. depth (e_level e)) es)"
proof (cases "drop_duplicates h None outline_candidates")
  case Nil
  then show ?thesis by (simp add: refined_entries_def refine_hierarchy_def entries_of_def)
next
  case (Cons r0 rest)
  have "set (r0 # rest) \<subseteq> set outline_candidates"
    using drop_duplicates_subset[of h None outline_candidates] Cons by simp
  then have all: "list_all (\<lambda>r. is_outline_level (e_level (h r))) ([r0] @ rest)"
    using assms by (auto simp: list_all_iff)
  have ne: "outline_candidates \<noteq> []" using Cons by auto
  from clamp_levels_invariant[OF _ all, of U]
  obtain h' out where "clamp_levels U rest (h, [r0]) = Inr (h', out)"
    "list_all (\<lambda>r. is_outline_level (e_level (h' r))) out"
    "nesting_ok (map (\<lambda>r. depth (e_level (h' r))) out)" by auto
  then show ?thesis using Cons ne
    by (simp add: refined_entries_def refine_hierarchy_def entries_of_def list_all_iff comp_def)
qed

lemma store_of_3:
  "store_of [a, b, c] =
     (\<lambda>r. if r = 0 then a else if r = 1 then b else if r = 2 then c else mk_entry [] [] 0)"
  by (auto simp: store_of_def fun_eq_iff nth_Cons split: nat.splits)

lemmas refine_eval = refined_entries_def refine_hierarchy_def store_of_3 mk_entry_def cps_def
  level_num_def str_of_nat_digit is_excluded_word_def cleaned_text_lower_def lower_def strip_def
  split_def class_defs regex_defs entries_of_def common_short_words_to_exclude_def

text \<open>
  The hypothesis of C1 holds of a list in which the entry at reference 1 occurs twice.
  At its second occurrence the entry is lowered from H3 to H2, which also lowers it at
  its first place in the kept list; the result is H2, H2, H1, H2.
\<close>

theorem refine_hierarchy_nesting_witness:
  "list_all (\<lambda>r. is_outline_level (e_level
       (store_of [mk_entry ''H2'' ''Intro'' 0, mk_entry ''H3'' ''Scope'' 0, mk_entry ''H1'' ''Method'' 1] r)))
     [0, 1, 2, 1]
   \<and> (\<exists>es. refined_entries ascii_only
         (store_of [mk_entry ''H2'' ''Intro'' 0, mk_entry ''H3'' ''Scope'' 0, mk_entry ''H1'' ''Method'' 1])
         [0, 1, 2, 1] = Inr es
       \<and> list_all (\<lambda>e. is_outline_level (e_level e)) es
       \<and> nesting_ok (map (\<lambda>e. depth (e_level e)) es))"
proof -
  have h: "list_all (\<lambda>r. is_outline_level (e_level
       (store_of [mk_entry ''H2'' ''Intro'' 0, mk_entry ''H3'' ''Scope'' 0, mk_entry ''H1'' ''Method'' 1] r)))
     [0, 1, 2, 1]"
    by (simp add: store_of_3 mk_entry_def is_outline_level_def cps_def)
  from refine_hierarchy_nesting[OF h, of ascii_only] h show ?thesis by blast
qed

text \<open>
  Claim C2, as the specification states it, fails: on the input
  [(H1,"A",0), (H3,"B",0), (H1,"A",0)] the refiner does not return
  [(H1,"A",0), (H2,"B",0)].
\<close>

theorem refine_hierarchy_example_counterexample:
  "refined_entries ascii_only
     (store_of [mk_entry ''H1'' ''A'' 0, mk_entry ''H3'' ''B'' 0, mk_entry ''H1'' ''A'' 0]) [0, 1, 2]
   \<noteq> Inr [mk_entry ''H1'' ''A'' 0, mk_entry ''H2'' ''B'' 0]"
  by (simp add: refine_eval ascii_only_def)

text \<open>
  Claim C2, amended. On the input [(H1,"A",0), (H3,"B",0), (H1,"A",0)] the refiner
  returns [(H1,"A",0), (H2,"B",0), (H1,"A",0)]: the H3 entry is clamped to H2, and the
  second (H1,"A",0) is kept, since the entry before it in the input is not equal to it.
  A duplicate that directly follows its original is dropped: the input
  [(H1,"A",0), (H1,"A",0), (H3,"B",0)] gives [(H1,"A",0), (H2,"B",0)].
\<close>

theorem refine_hierarchy_example:
  "refined_entries U
     (store_of [mk_entry ''H1'' ''A'' 0, mk_entry ''H3'' ''B'' 0, mk_entry ''H1'' ''A'' 0]) [0, 1, 2]
   = Inr [mk_entry ''H1'' ''A'' 0, mk_entry ''H2'' ''B'' 0, mk_entry ''H1'' ''A'' 0]
   \<and> refined_entries U
     (store_of [mk_entry ''H1'' ''A'' 0, mk_entry ''H1'' ''A'' 0, mk_entry ''H3'' ''B'' 0]) [0, 1, 2]
   = Inr [mk_entry ''H1'' ''A'' 0, mk_entry ''H2'' ''B'' 0]"
  by (simp add: refine_eval)

section \<open>Properties of the heading classifier and the hierarchy assigner\<close>

lemma style_level_one: "style_level blk styles i (Suc 0) = Suc 0"
  by (induction styles arbitrary: i) auto

lemma h1_ratio_level_one: "h1_ratio_level blk styles (Suc 0) = Suc 0"
  by (simp add: h1_ratio_level_def Let_def split: list.split)

lemma intro_strip: "strip U (cps ''1. Introduction'') = cps ''1. Introduction''"
  by (simp add: strip_def cps_def class_defs)

lemma intro_prefix_level: "prefix_level U (cps ''1. Introduction'') = Suc 0"
  by (simp add: prefix_level_def cps_def class_defs regex_defs isdigit_def count_char_def)

lemma intro_candidate:
  assumes "0 < b" "b_text blk = cps ''1. Introduction''" "b_size blk = 1.4 * b" "\<not> b_is_bold blk"
  shows "is_heading_candidate U blk b"
proof -
  have c: "cleaned_text_for_comparison U (cps ''1. Introduction'') = cps ''1 Introduction''"
    by (simp add: cleaned_text_for_comparison_def strip_def cps_def class_defs)
  have w: "length (split U (cps ''1 Introduction'')) = 2"
    by (simp add: split_def cps_def class_defs)
  have p: "\<not> list_ex (\<lambda>p. re_match p (cps ''1. Introduction'')) (non_heading_patterns U)"
    by (simp add: non_heading_patterns_def cps_def class_defs regex_defs Let_def)
  have e: "\<not> endswith (cps ''1. Introduction'') (cps '':'')" "124 \<notin> set (cps ''1. Introduction'')"
    "length (cps ''1. Introduction'') = 15" "cps ''1. Introduction'' \<noteq> []" "cps ''1 Introduction'' \<noteq> []"
    by (simp_all add: endswith_def cps_def)
  have u: "\<not> isupper U (cps ''1. Introduction'')"
    by (simp add: isupper_def cps_def class_defs)
  have s: "\<not> is_spaced_text U (cps ''1. Introduction'')"
    by (simp add: is_spaced_text_def spaced_text_pattern_def cps_def class_defs regex_defs Let_def)
  have h: "\<not> is_upper_char U (hd (cps ''1. Introduction''))"
    by (simp add: cps_def class_defs)
  have q: "b_size blk / b = 14 / 10" unfolding assms(3) using assms(1) by simp
  have r: "b_size blk / b \<ge> min_heading_ratio" unfolding q min_heading_ratio_def by simp
  show ?thesis
    using assms(1) r
    by (simp add: is_heading_candidate_def assms(2) intro_strip c w p e u s h Let_def max_heading_length_def)
qed

lemma total_rejected:
  assumes "b_text blk = cps ''total''"
  shows "\<not> is_heading_candidate U blk b"
proof -
  have st: "strip U (cps ''total'') = cps ''total''"
    by (simp add: strip_def cps_def class_defs)
  have p: "list_ex (\<lambda>p. re_match p (cps ''total'')) (non_heading_patterns U)"
    by (simp add: non_heading_patterns_def cps_def class_defs regex_defs Let_def)
  show ?thesis
    by (simp add: is_heading_candidate_def assms st p Let_def)
qed

text \<open>
  Claim C5. For every body size \<open>b > 0\<close>, every table of heading styles and every
  block with the text "1. Introduction", size \<open>1.4 * b\<close> and not bold, the block is a
  heading candidate and, with no previous heading, gets the level H1; every block with
  the text "total" and size \<open>b\<close> is rejected, whatever its position and weight.
\<close>

theorem heading_classifier_examples:
  assumes "0 < b"
    and "b_text blk = cps ''1. Introduction''" and "b_size blk = 1.4 * b" and "\<not> b_is_bold blk"
    and "b_text blk' = cps ''total''" and "b_size blk' = b"
  shows "is_heading_candidate U blk b
       \<and> determine_heading_level U page_width blk heading_styles None = Inr (cps ''H1'')
       \<and> \<not> is_heading_candidate U blk' b"
proof -
  have "cps ''H'' @ str_of_nat (min (Suc 0) 3) = cps ''H1''"
    by (simp add: str_of_nat_digit cps_def)
  then have "determine_heading_level U page_width blk heading_styles None = Inr (cps ''H1'')"
    by (simp add: determine_heading_level_def assms(2) intro_strip intro_prefix_level
        style_level_one h1_ratio_level_one)
  then show ?thesis
    using intro_candidate[OF assms(1-4)] total_rejected[OF assms(5)] by simp
qed

theorem heading_classifier_examples_witness:
  "(0::real) < 10
   \<and> b_text (mk_block ''1. Introduction'' 14 False) = cps ''1. Introduction''
   \<and> b_size (mk_block ''1. Introduction'' 14 False) = 1.4 * 10
   \<and> \<not> b_is_bold (mk_block ''1. Introduction'' 14 False)
   \<and> b_text (mk_block ''total'' 10 True) = cps ''total''
   \<and> b_size (mk_block ''total'' 10 True) = 10
   \<and> is_heading_candidate ascii_only (mk_block ''1. Introduction'' 14 False) 10
   \<and> determine_heading_level ascii_only 612 (mk_block ''1. Introduction'' 14 False)
        [\<lparr>hs_size = 18, hs_is_bold = True, hs_score = 130, hs_char_count = 40\<rparr>] None = Inr (cps ''H1'')
   \<and> \<not> is_heading_candidate ascii_only (mk_block ''total'' 10 True) 10"
proof -
  have h: "(0::real) < 10"
    "b_text (mk_block ''1. Introduction'' 14 False) = cps ''1. Introduction''"
    "b_size (mk_block ''1. Introduction'' 14 False) = 1.4 * 10"
    "\<not> b_is_bold (mk_block ''1. Introduction'' 14 False)"
    "b_text (mk_block ''total'' 10 True) = cps ''total''"
    "b_size (mk_block ''total'' 10 True) = 10"
    by (simp_all add: mk_block_def)
  from heading_classifier_examples[OF h, of ascii_only 612
      "[\<lparr>hs_size = 18, hs_is_bold = True, hs_score = 130, hs_char_count = 40\<rparr>]"] h
  show ?thesis by blast
qed

lemma is_spaced_text_iff:
  "is_spaced_text U t = (re_search (spaced_text_pattern U) t \<and> space_ratio t > 0.5)"
proof (cases "length t - count_char 32 t = 0")
  case True
  then show ?thesis by (simp add: is_spaced_text_def space_ratio_def Let_def)
next
  case False
  then show ?thesis by (simp add: is_spaced_text_def space_ratio_def Let_def spaced_text_threshold_def)
qed

lemma spaced_rejected:
  "is_spaced_text U (strip U (b_text blk)) \<Longrightarrow> \<not> is_heading_candidate U blk body_size"
  by (simp add: is_heading_candidate_def Let_def)

lemma title_spaced: "is_spaced_text U (cps ''T H I S   I S   A   T I T L E'')"
  by (simp add: is_spaced_text_def spaced_text_pattern_def cps_def class_defs regex_defs Let_def
      count_char_def spaced_text_threshold_def)

lemma title_strip: "strip U (cps ''T H I S   I S   A   T I T L E'') = cps ''T H I S   I S   A   T I T L E''"
  by (simp add: strip_def cps_def class_defs)

text \<open>
  Claim C6, amended. \<open>_is_heading_candidate\<close> first strips the white space at both
  ends of the text of the block. A block is rejected, whatever its size, when the
  stripped text contains a word character, three or more white-space characters and a
  word character in a row and the ratio of spaces to other characters of the stripped
  text exceeds 0.5. In particular the text "T H I S   I S   A   T I T L E" is rejected
  at twice the body size.
\<close>

theorem spaced_text_rejected:
  assumes "re_search (spaced_text_pattern U) (strip U (b_text blk))"
    and "space_ratio (strip U (b_text blk)) > 0.5"
    and "b_text blk' = cps ''T H I S   I S   A   T I T L E''"
    and "b_size blk' = 2 * body_size'"
  shows "\<not> is_heading_candidate U blk body_size \<and> \<not> is_heading_candidate U blk' body_size'"
proof -
  have "is_spaced_text U (strip U (b_text blk))"
    using assms(1,2) by (simp only: is_spaced_text_iff)
  moreover have "is_spaced_text U (strip U (b_text blk'))"
    by (simp only: assms(3) title_strip title_spaced)
  ultimately show ?thesis
    using spaced_rejected[of U blk body_size] spaced_rejected[of U blk' body_size'] by blast
qed

text \<open>
  The hypotheses hold of the block "  a   b   c   d  " at three times the body size:
  its stripped text is "a   b   c   d", with nine spaces to four other characters.
\<close>

theorem spaced_text_rejected_witness:
  "re_search (spaced_text_pattern ascii_only)
     (strip ascii_only (b_text (mk_block ''  a   b   c   d  '' 30 False)))
   \<and> space_ratio (strip ascii_only (b_text (mk_block ''  a   b   c   d  '' 30 False))) > 0.5
   \<and> b_text (mk_block ''T H I S   I S   A   T I T L E'' 20 False) = cps ''T H I S   I S   A   T I T L E''
   \<and> b_size (mk_block ''T H I S   I S   A   T I T L E'' 20 False) = 2 * 10
   \<and> \<not> is_heading_candidate ascii_only (mk_block ''  a   b   c   d  '' 30 False) 10
   \<and> \<not> is_heading_candidate ascii_only (mk_block ''T H I S   I S   A   T I T L E'' 20 False) 10"
proof -
  have s: "strip ascii_only (b_text (mk_block ''  a   b   c   d  '' 30 False)) = cps ''a   b   c   d''"
    by (simp add: mk_block_def strip_def cps_def class_defs)
  have h1: "re_search (spaced_text_pattern ascii_only)
      (strip ascii_only (b_text (mk_block ''  a   b   c   d  '' 30 False)))"
    unfolding s by (simp add: spaced_text_pattern_def cps_def class_defs regex_defs Let_def)
  have h2: "space_ratio (strip ascii_only (b_text (mk_block ''  a   b   c   d  '' 30 False))) > 0.5"
    unfolding s by (simp add: space_ratio_def count_char_def cps_def)
  have h3: "b_text (mk_block ''T H I S   I S   A   T I T L E'' 20 False) = cps ''T H I S   I S   A   T I T L E''"
    and h4: "b_size (mk_block ''T H I S   I S   A   T I T L E'' 20 False) = 2 * 10"
    by (simp_all add: mk_block_def)
  from spaced_text_rejected[OF h1 h2 h3 h4] h1 h2 h3 h4 show ?thesis by blast
qed

lemmas candidate_eval = is_heading_candidate_def mk_block_def cps_def strip_def
  cleaned_text_for_comparison_def split_def class_defs regex_defs non_heading_patterns_def Let_def
  endswith_def isupper_def is_spaced_text_def spaced_text_pattern_def min_heading_ratio_def
  min_heading_length_def max_heading_length_def spaced_text_threshold_def count_char_def

text \<open>
  The stripped text "a   b   c   d" passes every test that comes before the test for
  spaced text, and at three times the body size it passes the size gate: the test for
  spaced text is the one that rejects the block.
\<close>

lemma spaced_text_rule_decides:
  "cleaned_text_for_comparison U (cps ''a   b   c   d'') = cps ''a   b   c   d''
   \<and> length (split U (cps ''a   b   c   d'')) = 4
   \<and> \<not> list_ex (\<lambda>p. re_match p (cps ''a   b   c   d'')) (non_heading_patterns U)
   \<and> \<not> endswith (cps ''a   b   c   d'') (cps '':'')
   \<and> 124 \<notin> set (cps ''a   b   c   d'')
   \<and> min_heading_ratio \<le> 30 / 10"
  by (simp add: candidate_eval)

text \<open>
  The pattern and the ratio are those of the stripped text, not of the text of the
  block: "  ab   cdefg  " has seven spaces to seven other characters and contains the
  pattern, its stripped text has three spaces to seven, and the block is a heading
  candidate at twice the body size.
\<close>

lemma unstripped_ratio_not_enough:
  "re_search (spaced_text_pattern U) (cps ''  ab   cdefg  '')
   \<and> space_ratio (cps ''  ab   cdefg  '') > 0.5
   \<and> is_heading_candidate U (mk_block ''  ab   cdefg  '' 20 False) 10"
  by (simp add: candidate_eval space_ratio_def)

text \<open>
  Claim C6, as stated, fails: the text "a b c d" has three spaces to four other
  characters, a ratio above 0.5, and at twice the body size it is a heading candidate,
  since no run of three white-space characters occurs in it.
\<close>

theorem spaced_text_counterexample:
  "space_ratio (cps ''a b c d'') > 0.5 \<and> is_heading_candidate ascii_only (mk_block ''a b c d'' 20 False) 10"
  by (simp add: space_ratio_def count_char_def is_heading_candidate_def mk_block_def cps_def strip_def
     cleaned_text_for_comparison_def split_def class_defs regex_defs non_heading_patterns_def Let_def
     endswith_def isupper_def is_spaced_text_def spaced_text_pattern_def min_heading_ratio_def
     min_heading_length_def max_heading_length_def ascii_only_def)

section \<open>Properties of the body text size\<close>

lemma max_by_mem: "max_by key b xs \<in> set (b # xs)"
  by (induction xs arbitrary: b) auto

lemma max_by_mono: "key b \<le> key (max_by key b xs)"
proof (induction xs arbitrary: b)
  case Nil
  then show ?case by simp
next
  case (Cons y ys)
  show ?case using Cons[of y] Cons[of b] by auto
qed

lemma max_by_ge: "x \<in> set (b # xs) \<Longrightarrow> key x \<le> key (max_by key b xs)"
proof (induction xs arbitrary: b)
  case Nil
  then show ?case by simp
next
  case (Cons y ys)
  show ?case
  proof (cases "key y > key b")
    case True
    then show ?thesis using Cons.prems Cons.IH[of y] max_by_mono[of key y ys] by auto
  next
    case False
    then show ?thesis using Cons.prems Cons.IH[of b] max_by_mono[of key b ys] by auto
  qed
qed

text \<open>
  Claim C7, amended. With no statistics the body size is 11.0. When some sampled size
  lies in the band from 8 to 14, the result is a size of the band whose
  \<open>char_count - bold_count\<close> is the highest of the band. When the table is not empty
  and no size lies in the band, the result is a size of the table whose
  \<open>char_count - bold_count\<close> is the highest of the table.
\<close>

theorem body_text_size:
  "(fs = [] \<longrightarrow> determine_body_text_size fs = 11)
   \<and> (body_candidates fs \<noteq> [] \<longrightarrow>
        determine_body_text_size fs \<in> set (body_candidates fs)
        \<and> list_all (\<lambda>s. non_bold_count fs s \<le> non_bold_count fs (determine_body_text_size fs))
             (body_candidates fs))
   \<and> (fs \<noteq> [] \<and> body_candidates fs = [] \<longrightarrow>
        determine_body_text_size fs \<in> set (map fst fs)
        \<and> list_all (\<lambda>s. non_bold_count fs s \<le> non_bold_count fs (determine_body_text_size fs))
             (map fst fs))"
proof (intro conjI impI)
  show "determine_body_text_size fs = 11" if "fs = []"
    using that by (simp add: determine_body_text_size_def)
next
  assume ne: "body_candidates fs \<noteq> []"
  then obtain s ss where c: "body_candidates fs = s # ss" by (cases "body_candidates fs") auto
  then have fs: "fs \<noteq> []" by (auto simp: body_candidates_def)
  have r: "determine_body_text_size fs = max_by (non_bold_count fs) s ss"
    using c fs by (simp add: determine_body_text_size_def body_candidates_def)
  show "determine_body_text_size fs \<in> set (body_candidates fs)"
    unfolding r c by (rule max_by_mem)
  show "list_all (\<lambda>s. non_bold_count fs s \<le> non_bold_count fs (determine_body_text_size fs))
             (body_candidates fs)"
    unfolding r c list_all_iff using max_by_ge[of _ s ss "non_bold_count fs"] by blast
next
  assume a: "fs \<noteq> [] \<and> body_candidates fs = []"
  then obtain s ss where c: "map fst fs = s # ss" by (cases fs) auto
  have r: "determine_body_text_size fs = max_by (non_bold_count fs) s ss"
    using a c by (simp add: determine_body_text_size_def body_candidates_def)
  show "determine_body_text_size fs \<in> set (map fst fs)"
    unfolding r c by (rule max_by_mem)
  show "list_all (\<lambda>s. non_bold_count fs s \<le> non_bold_count fs (determine_body_text_size fs))
             (map fst fs)"
    unfolding r c list_all_iff using max_by_ge[of _ s ss "non_bold_count fs"] by blast
qed

theorem body_text_size_witness:
  "determine_body_text_size [] = 11
   \<and> body_candidates stats_with_band \<noteq> []
   \<and> determine_body_text_size stats_with_band \<in> set (body_candidates stats_with_band)
   \<and> list_all (\<lambda>s. non_bold_count stats_with_band s
                    \<le> non_bold_count stats_with_band (determine_body_text_size stats_with_band))
        (body_candidates stats_with_band)
   \<and> stats_without_band \<noteq> [] \<and> body_candidates stats_without_band = []
   \<and> determine_body_text_size stats_without_band \<in> set (map fst stats_without_band)
   \<and> list_all (\<lambda>s. non_bold_count stats_without_band s
                    \<le> non_bold_count stats_without_band (determine_body_text_size stats_without_band))
        (map fst stats_without_band)"
proof -
  have a: "body_candidates stats_with_band \<noteq> []"
    by (simp add: body_candidates_def stats_with_band_def)
  have b: "stats_without_band \<noteq> [] \<and> body_candidates stats_without_band = []"
    by (simp add: body_candidates_def stats_without_band_def)
  from body_text_size[of "[]"] body_text_size[of stats_with_band]
    body_text_size[of stats_without_band] a b
  show ?thesis by blast
qed

text \<open>
  Claim C7, as stated, fails in its fallback: in a table with no size in the band,
  whose size 20 has 100 characters, all bold, and whose size 16 has 50 characters, none
  bold, the size with the highest total character count is 20, and the result is 16.
\<close>

theorem body_text_size_counterexample:
  "body_candidates stats_without_band = []
   \<and> largest_volume_size stats_without_band = 20
   \<and> determine_body_text_size stats_without_band = 16"
  by (simp add: body_candidates_def largest_volume_size_def determine_body_text_size_def
      non_bold_count_def stats_of_def stats_without_band_def)

section \<open>Properties of the title clean-up\<close>

lemma dedup_Nil_iff: "deduplicate_title xs = [] \<longleftrightarrow> xs = []"
  by (cases xs) (auto simp: deduplicate_title.simps)

lemma dedup_hd: "xs \<noteq> [] \<Longrightarrow> hd (deduplicate_title xs) = hd xs"
  by (cases xs) (auto simp: deduplicate_title.simps)

lemma run_alt: "has_run3_no_newline (a # xs) =
   ((a \<noteq> 10 \<and> length (takeWhile (\<lambda>x. x = a) xs) \<ge> 2) \<or> has_run3_no_newline xs)"
proof (cases xs)
  case Nil
  then show ?thesis by simp
next
  case (Cons b ys)
  then show ?thesis by (cases ys) auto
qed

lemma takeWhile_dedup_dropped:
  "takeWhile (\<lambda>x. x = c) (deduplicate_title (dropWhile (\<lambda>x. x = c) cs)) = []"
proof (cases "dropWhile (\<lambda>x. x = c) cs")
  case Nil
  show ?thesis unfolding Nil by simp
next
  case (Cons d ds)
  then have "d \<noteq> c" using hd_dropWhile[of "\<lambda>x. x = c" cs] by auto
  moreover have "hd (deduplicate_title (d # ds)) = d" using dedup_hd[of "d # ds"] by simp
  moreover have "deduplicate_title (d # ds) \<noteq> []" by (simp add: dedup_Nil_iff)
  ultimately show ?thesis unfolding Cons by (cases "deduplicate_title (d # ds)") auto
qed

lemma dedup_lead:
  "length (takeWhile (\<lambda>x. x = c) (deduplicate_title xs)) \<le> length (takeWhile (\<lambda>x. x = c) xs)"
proof (induction xs rule: deduplicate_title.induct)
  case 1
  then show ?case by simp
next
  case (2 d ds)
  show ?case
  proof (cases "d \<noteq> 10 \<and> length (takeWhile (\<lambda>x. x = d) ds) \<ge> 2")
    case True
    then have e: "deduplicate_title (d # ds) = d # deduplicate_title (dropWhile (\<lambda>x. x = d) ds)"
      by (simp add: deduplicate_title.simps)
    show ?thesis
    proof (cases "d = c")
      case True
      then show ?thesis unfolding e using takeWhile_dedup_dropped[of c ds] by simp
    next
      case False
      then show ?thesis unfolding e by simp
    qed
  next
    case False
    then have e: "deduplicate_title (d # ds) = d # deduplicate_title ds"
      by (auto simp: deduplicate_title.simps)
    show ?thesis unfolding e using 2(2)[OF False] by simp
  qed
qed

lemma dedup_no_run: "\<not> has_run3_no_newline (deduplicate_title xs)"
proof (induction xs rule: deduplicate_title.induct)
  case 1
  then show ?case by simp
next
  case (2 d ds)
  show ?case
  proof (cases "d \<noteq> 10 \<and> length (takeWhile (\<lambda>x. x = d) ds) \<ge> 2")
    case True
    then have e: "deduplicate_title (d # ds) = d # deduplicate_title (dropWhile (\<lambda>x. x = d) ds)"
      by (simp add: deduplicate_title.simps)
    show ?thesis unfolding e run_alt using 2(1)[OF True] takeWhile_dedup_dropped[of d ds] by simp
  next
    case False
    then have e: "deduplicate_title (d # ds) = d # deduplicate_title ds"
      by (auto simp: deduplicate_title.simps)
    show ?thesis unfolding e run_alt using 2(2)[OF False] False dedup_lead[of d ds] by auto
  qed
qed

lemma dedup_fixed: "\<not> has_run3_no_newline xs \<Longrightarrow> deduplicate_title xs = xs"
proof (induction xs)
  case Nil
  then show ?case by simp
next
  case (Cons a xs)
  then show ?case by (auto simp: run_alt deduplicate_title.simps)
qed

text \<open>
  What the code does on every string: \<open>_deduplicate_title\<close> is idempotent, and its
  output has no three equal consecutive characters other than newlines.
\<close>

theorem deduplicate_title_idempotent:
  "deduplicate_title (deduplicate_title s) = deduplicate_title s
   \<and> \<not> has_run3_no_newline (deduplicate_title s)"
  using dedup_fixed[OF dedup_no_run[of s]] dedup_no_run[of s] by simp

text \<open>
  Claim C10 against the code. The comments of \<open>_deduplicate_title\<close> say that three or
  more repeated characters in a row are removed, and the claim says that the output
  has no run of three equal characters. On the string of three newlines the code
  returns the string as it is, a run of three: the dot of the pattern, compiled without
  \<open>re.DOTALL\<close>, does not match a newline.
\<close>

theorem deduplicate_title_newlines:
  "deduplicate_title [10, 10, 10] = [10, 10, 10] \<and> has_run3 (deduplicate_title [10, 10, 10])"
  by (simp add: deduplicate_title.simps)

section \<open>Properties of the cover page classifier\<close>

lemma toc_first_page_2:
  assumes "pg_number p = 0" "doc_toc doc = e # rest" "length e > 2" "e ! 2 = TocInt 2"
  shows "analyze_page_for_cover_characteristics U prm p doc"
  using assms by (simp add: analyze_page_for_cover_characteristics_def toc_says_cover_def)

lemma toc_first_page_1:
  assumes "pg_number p = 0" "doc_toc doc = e # rest" "length e > 2" "e ! 2 = TocInt 1"
  shows "toc_says_cover p (doc_toc doc) = Inr False"
  using assms by (simp add: toc_says_cover_def)

lemma count_prominent_none:
  "list_all (\<lambda>s. \<not> sp_size s > threshold) ss \<Longrightarrow> count_prominent U threshold ss processed n = n"
  by (induction ss arbitrary: processed n) (auto simp: Let_def)

lemma sum_list_const: "list_all (\<lambda>x. x = c) xs \<Longrightarrow> sum_list xs = real (length xs) * (c::real)"
  by (induction xs) (auto simp: algebra_simps)

lemma fold_max_const: "list_all (\<lambda>x. x = c) xs \<Longrightarrow> fold max xs (c::real) = c"
  by (induction xs) auto

lemma py_max_const: "xs \<noteq> [] \<Longrightarrow> list_all (\<lambda>x. x = c) xs \<Longrightarrow> py_max xs = Inr c"
  by (cases xs) (auto simp: py_max_def fold_max_const)

lemma single_size_page_not_cover:
  assumes blocks: "pg_blocks p = [TextBlock [l]]"
    and ne: "ln_spans l \<noteq> []"
    and sz: "list_all (\<lambda>s. sp_size s = 36) (ln_spans l)"
  shows "cover_heuristics U default_cover_params p = Inr False"
proof -
  let ?sps = "ln_spans l"
  have tl: "text_lines p = [l]" by (simp add: text_lines_def blocks)
  have spans: "page_spans p = ?sps" by (simp add: page_spans_def tl)
  have sizes: "list_all (\<lambda>x. x = 36) (map sp_size ?sps)"
    using sz by (simp add: list_all_iff)
  have mx: "py_max (map sp_size ?sps) = Inr 36"
    using py_max_const[OF _ sizes] ne by simp
  have "sum_list (map sp_size ?sps) = real (length ?sps) * 36"
    using sum_list_const[OF sizes] by simp
  moreover have "real (length ?sps) \<noteq> 0" using ne by simp
  ultimately have avg: "sum_list (map sp_size ?sps) / real (length ?sps) = 36"
    by simp
  obtain ul where ul: "collect_unique_lines U [l] [] = Inr ul"
    and ul36: "list_all (\<lambda>(t, s). s = 36) ul"
    by (cases "line_text U l = []") (auto simp: mx Let_def)
  have bc: "body_text_lines_count U a 36 ul = 0" for a
    using ul36 by (auto simp: body_text_lines_count_def list_all_iff filter_empty_conv)
  have cp: "count_prominent U thr (sort_key (\<lambda>s. - sp_size s) ?sps) [] 0 = 0" if "36 \<le> thr" for thr
  proof -
    have "list_all (\<lambda>s. \<not> sp_size s > thr) (sort_key (\<lambda>s. - sp_size s) ?sps)"
      using sz that by (auto simp: list_all_iff)
    then show ?thesis by (rule count_prominent_none)
  qed
  show ?thesis
    using ne
    by (simp add: cover_heuristics_def spans tl mx avg ul bc cp default_cover_params_def Let_def
        del: collect_unique_lines.simps)
qed

text \<open>
  Claim C8. Take a first page (page index 0) whose only text is one line of spans of
  36pt, wherever the line stands and whatever images the page has. With a table of
  contents whose first entry points to page 2 the classifier returns True, before any
  heuristic is computed; with a table of contents whose first entry points to page 1
  it returns False under the default parameters.
\<close>

theorem cover_toc_examples:
  assumes "pg_number p = 0"
    and "pg_blocks p = [TextBlock [l]]" and "ln_spans l \<noteq> []"
    and "list_all (\<lambda>s. sp_size s = 36) (ln_spans l)"
    and "doc_toc doc2 = e2 # rest2" and "length e2 > 2" and "e2 ! 2 = TocInt 2"
    and "doc_toc doc1 = e1 # rest1" and "length e1 > 2" and "e1 ! 2 = TocInt 1"
  shows "analyze_page_for_cover_characteristics U default_cover_params p doc2
       \<and> \<not> analyze_page_for_cover_characteristics U default_cover_params p doc1"
  using toc_first_page_2[OF assms(1,5,6,7), of U default_cover_params]
    toc_first_page_1[OF assms(1,8,9,10)]
    single_size_page_not_cover[OF assms(2,3,4), of U]
  by (simp add: analyze_page_for_cover_characteristics_def)

theorem cover_toc_examples_witness:
  "pg_number title_page = 0
   \<and> pg_blocks title_page = [TextBlock [title_line]] \<and> ln_spans title_line \<noteq> []
   \<and> list_all (\<lambda>s. sp_size s = 36) (ln_spans title_line)
   \<and> doc_toc (doc_with_toc 2) = [TocInt 1, TocStr (cps ''Introduction''), TocInt 2] # []
   \<and> length [TocInt 1, TocStr (cps ''Introduction''), TocInt 2] > 2
   \<and> [TocInt 1, TocStr (cps ''Introduction''), TocInt 2] ! 2 = TocInt 2
   \<and> doc_toc (doc_with_toc 1) = [TocInt 1, TocStr (cps ''Introduction''), TocInt 1] # []
   \<and> length [TocInt 1, TocStr (cps ''Introduction''), TocInt 1] > 2
   \<and> [TocInt 1, TocStr (cps ''Introduction''), TocInt 1] ! 2 = TocInt 1
   \<and> analyze_page_for_cover_characteristics ascii_only default_cover_params title_page (doc_with_toc 2)
   \<and> \<not> analyze_page_for_cover_characteristics ascii_only default_cover_params title_page (doc_with_toc 1)"
proof -
  have h: "pg_number title_page = 0"
    "pg_blocks title_page = [TextBlock [title_line]]" "ln_spans title_line \<noteq> []"
    "list_all (\<lambda>s. sp_size s = 36) (ln_spans title_line)"
    "doc_toc (doc_with_toc 2) = [TocInt 1, TocStr (cps ''Introduction''), TocInt 2] # []"
    "length [TocInt 1, TocStr (cps ''Introduction''), TocInt 2] > 2"
    "[TocInt 1, TocStr (cps ''Introduction''), TocInt 2] ! 2 = TocInt 2"
    "doc_toc (doc_with_toc 1) = [TocInt 1, TocStr (cps ''Introduction''), TocInt 1] # []"
    "length [TocInt 1, TocStr (cps ''Introduction''), TocInt 1] > 2"
    "[TocInt 1, TocStr (cps ''Introduction''), TocInt 1] ! 2 = TocInt 1"
    by (simp_all add: title_page_def title_line_def doc_with_toc_def)
  from cover_toc_examples[OF h, of ascii_only] h show ?thesis by blast
qed


section \<open>Properties of the outline extractor and the pipeline\<close>

text \<open>
  Claim C4. With no supplied title, when the layout source fails to open the path,
  and when it opens a document with no pages, \<open>extract_outline\<close> returns the dict
  whose title is the base name of the file, without its extension, and whose outline
  is the empty list; no exception leaves the call.
\<close>

theorem extract_outline_fallback:
  "extract_outline U [] c pdf_path (Inl e) =
     JDict [(''title'', JStr (file_stem pdf_path)), (''outline'', JList [])]
   \<and> (doc_pages doc = [] \<longrightarrow>
        extract_outline U [] c pdf_path (Inr doc) =
          JDict [(''title'', JStr (file_stem pdf_path)), (''outline'', JList [])])"
  by (simp add: extract_outline_def empty_outline_def)

theorem extract_outline_fallback_witness:
  "extract_outline ascii_only [] False (cps ''input/empty.pdf'') (Inl OpenError) =
     JDict [(''title'', JStr (file_stem (cps ''input/empty.pdf''))), (''outline'', JList [])]
   \<and> doc_pages empty_document = []
   \<and> extract_outline ascii_only [] False (cps ''input/empty.pdf'') (Inr empty_document) =
       JDict [(''title'', JStr (file_stem (cps ''input/empty.pdf''))), (''outline'', JList [])]"
proof -
  have h: "doc_pages empty_document = []" by (simp add: empty_document_def)
  from extract_outline_fallback[of ascii_only False "cps ''input/empty.pdf''" OpenError empty_document] h
  show ?thesis by blast
qed

lemma stem_empty_pdf: "file_stem (cps ''input/empty.pdf'') = cps ''empty''"
  by (simp add: file_stem_def basename_def splitext_root_def cps_def)

text \<open>
  Claim C3 against the code. For the file \<open>input/empty.pdf\<close> with no pages,
  \<open>process_pdf\<close> puts the whole dict that \<open>extract_outline\<close> returns under the key
  \<open>outline\<close>: the result is \<open>{title: "empty", outline: {title: "empty", outline: []}}\<close>
  and not \<open>{title: "empty", outline: []}\<close>.
\<close>

theorem process_pdf_zero_pages:
  "process_pdf U (cps ''input/empty.pdf'') (Inr []) (Inr empty_document) =
     JDict [(''title'', JStr (cps ''empty'')),
            (''outline'', JDict [(''title'', JStr (cps ''empty'')), (''outline'', JList [])])]
   \<and> process_pdf U (cps ''input/empty.pdf'') (Inr []) (Inr empty_document) \<noteq>
     JDict [(''title'', JStr (cps ''empty'')), (''outline'', JList [])]"
proof -
  have "cps ''empty'' \<noteq> []" by (simp add: cps_def)
  then show ?thesis
  by (simp add: process_pdf_def find_title_def stem_empty_pdf extract_outline_def empty_outline_def
      empty_document_def is_cover_page_def Let_def)
qed

end
